theory Spec2Isabelle
  imports Complex_Main
begin

section \<open>Data model of backtest.py\<close>

text \<open>
  The simulation engine of \<^verbatim>\<open>backtest.py\<close> works on Python floats. Here every float is
  an exact real number: the development is about the control flow and the bookkeeping
  of the engine, and takes its arithmetic without rounding error. A value that pandas
  may leave undefined (NaN during the warm-up of an indicator) is an \<open>option\<close>.
\<close>

text \<open>One row of the data frame \<^verbatim>\<open>df\<close>: the candle and its indicator columns.\<close>

record row =
  df_timestamp :: int
  df_open :: real
  df_high :: real
  df_low :: real
  df_close :: real
  df_volume :: real
  df_rsi :: "real option"
  df_macd :: "real option"
  df_signal :: "real option"
  df_hist :: "real option"
  df_atr :: "real option"
  df_volume_sma :: "real option"

text \<open>The dictionary \<^verbatim>\<open>position\<close> built at lines 240-252.\<close>

record position =
  entry_price :: real
  size_pos :: real
  stop_loss :: real
  take_profit :: real
  entry_index :: nat
  entry_time :: int
  macd_at_entry :: real
  signal_at_entry :: real
  hist_at_entry :: real
  atr_at_entry :: real
  position_candles :: nat

text \<open>The dictionary \<^verbatim>\<open>trade_entry\<close> built at lines 316-334.\<close>

record trade =
  th_timestamp :: int
  th_side :: string
  th_entry_price :: real
  th_exit_price :: real
  th_size :: real
  th_profit_loss :: real
  th_win_loss :: string
  th_usdt_balance :: real
  th_sol_balance :: real
  th_exit_type :: string
  th_sl_distance :: real
  th_tp_distance :: real
  th_macd_at_entry :: real
  th_signal_at_entry :: real
  th_hist_at_entry :: real
  th_atr_at_entry :: real
  th_candles_held :: int

text \<open>
  One line of \<^verbatim>\<open>partial_conditions.txt\<close>: timestamp, RSI, MACD, signal, histogram
  (the formatting of the numbers is left out).
\<close>

type_synonym partial_line = "int \<times> real \<times> real \<times> real \<times> real"

text \<open>
  The files a run writes: \<^verbatim>\<open>partial_conditions.txt\<close> and \<^verbatim>\<open>trade_history.csv\<close>
  (\<open>None\<close> when the file does not exist). They are what outlives a run.
\<close>

record files =
  partial_conditions_txt :: "partial_line list"
  trade_history_csv :: "trade list option"

text \<open>The local variables of \<^verbatim>\<open>run_backtest\<close> (lines 118-126) and the file it appends to.\<close>

record state =
  balance :: real
  positions :: "position list"
  trade_history :: "trade list"
  usdt_balance :: real
  sol_balance :: real
  trades :: nat
  wins :: nat
  rsi_below_threshold_count :: nat
  partial_condition_count :: nat
  partial_file :: "partial_line list"

section \<open>Parameters (lines 24-41)\<close>

definition rsi_oversold :: real where "rsi_oversold = 12"
definition min_hist_threshold :: real where "min_hist_threshold = - 5"
definition fee_percent :: real where "fee_percent = 75 / 1000"
definition slippage_factor :: real where "slippage_factor = 999 / 1000"
definition atr_sl_multiplier :: real where "atr_sl_multiplier = 25 / 100"
definition atr_tp_multiplier :: real where "atr_tp_multiplier = 5"
definition risk_per_trade :: real where "risk_per_trade = 5 / 100"
definition min_order_size :: real where "min_order_size = 5 / 10000"
definition max_hold_candles :: nat where "max_hold_candles = 60"
definition leverage :: real where "leverage = 2"
definition initial_balance :: real where "initial_balance = 10"
definition min_atr :: real where "min_atr = 1 / 100"
definition max_positions :: nat where "max_positions = 3"

section \<open>Rounding\<close>

text \<open>
  Python's \<^verbatim>\<open>round(x, 4)\<close> rounds to the nearest multiple of 0.0001, a tie going to the
  even neighbour.
\<close>

definition round_half_even :: "real \<Rightarrow> int" where
  "round_half_even x =
     (let f = \<lfloor>x\<rfloor>; d = x - of_int f
      in if d < 1 / 2 then f
         else if 1 / 2 < d then f + 1
         else if even f then f else f + 1)"

definition round4 :: "real \<Rightarrow> real" where
  "round4 x = of_int (round_half_even (x * 10000)) / 10000"

section \<open>Entry evaluation (lines 166-270)\<close>

text \<open>
  What happens to the rest of the loop body: \<open>Continue\<close> is Python's \<^verbatim>\<open>continue\<close>
  (the rest of the body is skipped), \<open>Fallthrough\<close> goes on to the statements that follow.
\<close>

datatype 'a flow = Continue 'a | Fallthrough 'a

fun flow_state :: "'a flow \<Rightarrow> 'a" where
  "flow_state (Continue s) = s"
| "flow_state (Fallthrough s) = s"

text \<open>Lines 183-195: the capped record of a candle whose RSI condition holds.\<close>

definition note_partial :: "row \<Rightarrow> real \<Rightarrow> real \<Rightarrow> real \<Rightarrow> real \<Rightarrow> state \<Rightarrow> state" where
  "note_partial r rsi macd signal hist st =
     (if partial_condition_count st < 1000
      then st\<lparr>partial_file := partial_file st @ [(df_timestamp r, rsi, macd, signal, hist)],
              partial_condition_count := partial_condition_count st + 1\<rparr>
      else st)"

text \<open>Lines 206-212: the size of the trade, from the cash balance and the close.\<close>

definition risk_amount :: "real \<Rightarrow> real" where
  "risk_amount bal = bal * risk_per_trade"

definition raw_size :: "real \<Rightarrow> real \<Rightarrow> real" where
  "raw_size bal cl = (risk_amount bal / atr_sl_multiplier) / cl"

definition trade_size :: "real \<Rightarrow> real \<Rightarrow> real" where
  "trade_size bal cl = round4 (max (raw_size bal cl) min_order_size)"

definition position_size_usdt :: "real \<Rightarrow> real \<Rightarrow> real" where
  "position_size_usdt bal cl = trade_size bal cl * cl"

text \<open>Line 224: the test that rejects an entry.\<close>

definition entry_rejected :: "real \<Rightarrow> real \<Rightarrow> bool" where
  "entry_rejected bal cl =
     (position_size_usdt bal cl > bal \<or> trade_size bal cl * cl < min_order_size * cl)"

text \<open>
  Lines 197-263: an entry signal fired; the position is sized and opened, or rejected.
  Lines 214-215, a comment and the assignment of a string constant that nothing reads,
  are left out.
\<close>

definition enter_position ::
  "row \<Rightarrow> nat \<Rightarrow> real \<Rightarrow> real \<Rightarrow> real \<Rightarrow> real \<Rightarrow> state \<Rightarrow> state flow" where
  "enter_position r i macd signal hist atr st =
     (let sz = trade_size (balance st) (df_close r);
          required = position_size_usdt (balance st) (df_close r)
      in if entry_rejected (balance st) (df_close r) then Continue st
         else
           let entry_price = df_close r * slippage_factor * (1 + fee_percent / 100);
               stop_loss = df_close r - atr * atr_sl_multiplier;
               take_profit = df_close r + atr * atr_tp_multiplier;
               pos = \<lparr>entry_price = entry_price, size_pos = sz, stop_loss = stop_loss,
                      take_profit = take_profit, entry_index = i,
                      entry_time = df_timestamp r, macd_at_entry = macd,
                      signal_at_entry = signal, hist_at_entry = hist, atr_at_entry = atr,
                      position_candles = 0\<rparr>;
               bal = balance st - required * (1 + fee_percent / 100)
           in Fallthrough (st\<lparr>positions := positions st @ [pos], balance := bal,
                                usdt_balance := bal, sol_balance := sol_balance st + sz\<rparr>))"

definition entry_phase ::
  "row \<Rightarrow> nat \<Rightarrow> real \<Rightarrow> real \<Rightarrow> real \<Rightarrow> real \<Rightarrow> real \<Rightarrow> real \<Rightarrow> state \<Rightarrow> state flow" where
  "entry_phase r i rsi macd signal hist atr volume_sma st =
     (if length (positions st) < max_positions then
        let c_rsi = rsi < rsi_oversold;
            c_hist = hist > min_hist_threshold;
            c_volume = df_volume r > volume_sma;
            st1 = (if c_rsi then note_partial r rsi macd signal hist st else st)
        in if c_rsi \<and> c_hist \<and> c_volume
           then enter_position r i macd signal hist atr st1
           else Fallthrough st1
      else Fallthrough st)"

section \<open>Exit evaluation (lines 272-351)\<close>

text \<open>
  Lines 281-306: the exit price and exit type of a position whose counter has been
  incremented, \<open>None\<close> when it stays open.
\<close>

definition exit_check :: "row \<Rightarrow> position \<Rightarrow> (real \<times> string) option" where
  "exit_check r pos =
     (if df_low r \<le> stop_loss pos
      then Some (stop_loss pos * slippage_factor * (1 - fee_percent / 100), ''Stop Loss'')
      else if df_high r \<ge> take_profit pos
      then Some (take_profit pos * slippage_factor * (1 - fee_percent / 100), ''Take Profit'')
      else if position_candles pos \<ge> max_hold_candles
      then Some (df_close r * slippage_factor * (1 - fee_percent / 100), ''Time Exit'')
      else None)"

text \<open>The three strings the exit evaluation can record as \<^verbatim>\<open>exit_type\<close>.\<close>

abbreviation exit_types :: "string set" where
  "exit_types \<equiv> {''Stop Loss'', ''Take Profit'', ''Time Exit''}"

text \<open>
  The bookkeeping of a close: the counters \<^verbatim>\<open>trades\<close> and \<^verbatim>\<open>wins\<close> (the same in each of
  the three branches) and lines 308-335.
\<close>

definition close_position :: "row \<Rightarrow> nat \<Rightarrow> position \<Rightarrow> real \<Rightarrow> string \<Rightarrow> state \<Rightarrow> state" where
  "close_position r i pos exit_price exit_type st =
     (let profit_loss = (exit_price - entry_price pos) * size_pos pos * leverage;
          bal = balance st + (size_pos pos * exit_price) * (1 - fee_percent / 100);
          sol = sol_balance st - size_pos pos;
          candles_held = int i - int (entry_index pos);
          trade_entry =
            \<lparr>th_timestamp = df_timestamp r, th_side = ''sell'',
             th_entry_price = entry_price pos, th_exit_price = exit_price,
             th_size = size_pos pos, th_profit_loss = profit_loss,
             th_win_loss = (if profit_loss > 0 then ''Win'' else ''Loss''),
             th_usdt_balance = bal, th_sol_balance = sol, th_exit_type = exit_type,
             th_sl_distance = entry_price pos - stop_loss pos,
             th_tp_distance = take_profit pos - entry_price pos,
             th_macd_at_entry = macd_at_entry pos, th_signal_at_entry = signal_at_entry pos,
             th_hist_at_entry = hist_at_entry pos, th_atr_at_entry = atr_at_entry pos,
             th_candles_held = candles_held\<rparr>
      in st\<lparr>trades := trades st + 1,
            wins := (if profit_loss > 0 then wins st + 1 else wins st),
            balance := bal, usdt_balance := bal, sol_balance := sol,
            trade_history := trade_history st @ [trade_entry]\<rparr>)"

text \<open>
  The loop of lines 274-341 over the open positions: \<open>bump\<close> is line 275. The loop
  returns the positions with their counters incremented (the dictionaries are updated in
  place), the list \<^verbatim>\<open>positions_to_close\<close> and the state.
\<close>

definition bump :: "position \<Rightarrow> position" where
  "bump pos = pos\<lparr>position_candles := position_candles pos + 1\<rparr>"

fun exit_loop ::
  "row \<Rightarrow> nat \<Rightarrow> position list \<Rightarrow> state \<Rightarrow> position list \<times> position list \<times> state" where
  "exit_loop r i [] st = ([], [], st)"
| "exit_loop r i (pos # rest) st =
     (let pos1 = bump pos
      in case exit_check r pos1 of
           None \<Rightarrow>
             (case exit_loop r i rest st of
                (ps, to_close, st2) \<Rightarrow> (pos1 # ps, to_close, st2))
         | Some (exit_price, exit_type) \<Rightarrow>
             (case exit_loop r i rest (close_position r i pos1 exit_price exit_type st) of
                (ps, to_close, st2) \<Rightarrow> (pos1 # ps, pos1 # to_close, st2)))"

text \<open>
  Lines 272-351: the exit loop, the removal of the closed positions (\<^verbatim>\<open>list.remove\<close>
  deletes the first equal element) and the recomputation of \<^verbatim>\<open>sol_balance\<close>.
\<close>

definition exit_phase :: "row \<Rightarrow> nat \<Rightarrow> state \<Rightarrow> state" where
  "exit_phase r i st =
     (case exit_loop r i (positions st) st of
        (ps, to_close, st2) \<Rightarrow>
          let remaining = fold remove1 to_close ps
          in st2\<lparr>positions := remaining,
                 sol_balance := (if remaining \<noteq> [] then sum_list (map size_pos remaining) else 0)\<rparr>)"

section \<open>The simulation loop (lines 132-351)\<close>

text \<open>Lines 142-153: a candle is eligible when its six indicators are defined and its ATR
  is not below \<^verbatim>\<open>min_atr\<close>.\<close>

definition eligible :: "row \<Rightarrow> bool" where
  "eligible r =
     (case (df_rsi r, df_macd r, df_signal r, df_hist r, df_atr r, df_volume_sma r) of
        (Some rsi, Some macd, Some signal, Some hist, Some atr, Some volume_sma) \<Rightarrow>
          \<not> atr < min_atr
      | _ \<Rightarrow> False)"

definition loop_body :: "row list \<Rightarrow> nat \<Rightarrow> state \<Rightarrow> state" where
  "loop_body df i st =
     (let r = df ! i
      in case (df_rsi r, df_macd r, df_signal r, df_hist r, df_atr r, df_volume_sma r) of
           (Some rsi, Some macd, Some signal, Some hist, Some atr, Some volume_sma) \<Rightarrow>
             if atr < min_atr then st
             else
               let st1 = (if rsi < rsi_oversold
                          then st\<lparr>rsi_below_threshold_count := rsi_below_threshold_count st + 1\<rparr>
                          else st)
               in (case entry_phase r i rsi macd signal hist atr volume_sma st1 of
                     Continue st2 \<Rightarrow> st2
                   | Fallthrough st2 \<Rightarrow> exit_phase r i st2)
         | _ \<Rightarrow> st)"

definition init_state :: state where
  "init_state =
     \<lparr>balance = initial_balance, positions = [], trade_history = [],
      usdt_balance = initial_balance, sol_balance = 0, trades = 0, wins = 0,
      rsi_below_threshold_count = 0, partial_condition_count = 0, partial_file = []\<rparr>"

text \<open>The state after the iterations \<open>i = 1, ..., n - 1\<close> of the loop at line 132.\<close>

definition run_loop :: "row list \<Rightarrow> nat \<Rightarrow> state" where
  "run_loop df n = fold (loop_body df) [1..<n] init_state"

section \<open>Metrics (lines 353-363)\<close>

text \<open>A Python float that may be \<^verbatim>\<open>float('inf')\<close>.\<close>

datatype xfloat = Finite real | Infinite

definition gross_profit :: "trade list \<Rightarrow> real" where
  "gross_profit th = sum_list (map th_profit_loss (filter (\<lambda>t. th_profit_loss t > 0) th))"

definition gross_loss :: "trade list \<Rightarrow> real" where
  "gross_loss th = \<bar>sum_list (map th_profit_loss (filter (\<lambda>t. th_profit_loss t < 0) th))\<bar>"

text \<open>Python's division of floats raises on a zero divisor.\<close>

datatype py_error = ZeroDivisionError

definition py_div :: "real \<Rightarrow> real \<Rightarrow> py_error + real" where
  "py_div a b = (if b = 0 then Inl ZeroDivisionError else Inr (a / b))"

definition profit_factor :: "trade list \<Rightarrow> py_error + xfloat" where
  "profit_factor th =
     (if gross_loss th \<noteq> 0
      then (case py_div (gross_profit th) (gross_loss th) of
              Inl e \<Rightarrow> Inl e
            | Inr q \<Rightarrow> Inr (Finite q))
      else Inr Infinite)"

section \<open>A run (lines 117-382)\<close>

text \<open>
  A run truncates \<^verbatim>\<open>partial_conditions.txt\<close> (line 129), appends to it in the loop, and
  writes \<^verbatim>\<open>trade_history.csv\<close> when there is a trade (line 377). It returns the final
  balance and the trade history.
\<close>

definition run_backtest :: "files \<Rightarrow> row list \<Rightarrow> (real \<times> trade list) \<times> files" where
  "run_backtest fs df =
     (let st = run_loop df (length df)
      in ((balance st, trade_history st),
          \<lparr>partial_conditions_txt = partial_file st,
           trade_history_csv =
             (if trade_history st \<noteq> [] then Some (trade_history st)
              else trade_history_csv fs)\<rparr>))"

section \<open>The indicator pipeline (lines 70-115)\<close>

text \<open>A candle as \<^verbatim>\<open>load_data\<close> returns it.\<close>

record candle =
  c_timestamp :: int
  c_open :: real
  c_high :: real
  c_low :: real
  c_close :: real
  c_volume :: real

text \<open>
  The pandas operations the pipeline uses, on a column without undefined values:
  \<^verbatim>\<open>diff()\<close> and \<^verbatim>\<open>shift()\<close> are undefined at the first row; \<^verbatim>\<open>rolling(window=w).mean()\<close>
  is undefined until the window holds \<open>w\<close> values; \<^verbatim>\<open>ewm(span=n, adjust=False).mean()\<close>
  starts at the first value and continues with \<open>(1 - a) * y + a * x\<close>, \<open>a = 2 / (n + 1)\<close>.
\<close>

definition diff :: "real list \<Rightarrow> real option list" where
  "diff xs = (case xs of [] \<Rightarrow> [] | x # rest \<Rightarrow> None # map2 (\<lambda>a b. Some (b - a)) xs rest)"

definition shift :: "real list \<Rightarrow> real option list" where
  "shift xs = (case xs of [] \<Rightarrow> [] | x # rest \<Rightarrow> None # map Some (butlast xs))"

definition rolling_mean :: "nat \<Rightarrow> real list \<Rightarrow> real option list" where
  "rolling_mean w xs =
     map (\<lambda>i. if i + 1 < w then None
              else Some (sum_list (take w (drop (i + 1 - w) xs)) / real w))
         [0..<length xs]"

fun ewm_from :: "real \<Rightarrow> real \<Rightarrow> real list \<Rightarrow> real list" where
  "ewm_from a y [] = []"
| "ewm_from a y (x # xs) = ((1 - a) * y + a * x) # ewm_from a ((1 - a) * y + a * x) xs"

definition ewm_mean :: "nat \<Rightarrow> real list \<Rightarrow> real list" where
  "ewm_mean n xs =
     (case xs of [] \<Rightarrow> [] | x # rest \<Rightarrow> x # ewm_from (2 / (real n + 1)) x rest)"

text \<open>Lines 72-76. \<^verbatim>\<open>where(cond, 0)\<close> puts 0 where the condition fails, also at the
  undefined first difference.\<close>

definition rsi_column :: "real list \<Rightarrow> real option list" where
  "rsi_column closes =
     (let delta = diff closes;
          gain = rolling_mean 14
                   (map (\<lambda>d. case d of Some v \<Rightarrow> if v > 0 then v else 0 | None \<Rightarrow> 0) delta);
          loss = map (map_option uminus)
                   (rolling_mean 14
                      (map (\<lambda>d. case d of Some v \<Rightarrow> if v < 0 then v else 0 | None \<Rightarrow> 0) delta))
      in map2 (\<lambda>g l. case (g, l) of
                        (Some gv, Some lv) \<Rightarrow> Some (100 - 100 / (1 + gv / (lv + 1 / 10 ^ 10)))
                      | _ \<Rightarrow> None)
              gain loss)"

text \<open>Lines 86-90: the true range; the row maximum skips the undefined entries.\<close>

definition true_range :: "candle list \<Rightarrow> real list" where
  "true_range cs =
     map2 (\<lambda>c prev. case prev of
                       None \<Rightarrow> c_high c - c_low c
                     | Some p \<Rightarrow> max (c_high c - c_low c) (max \<bar>c_high c - p\<bar> \<bar>c_low c - p\<bar>))
          cs (shift (map c_close cs))"

text \<open>Lines 71-94: the indicator columns, row by row (the column \<^verbatim>\<open>tr\<close> is not kept).\<close>

definition indicator_rows :: "candle list \<Rightarrow> row list" where
  "indicator_rows cs =
     (let closes = map c_close cs;
          rsi = rsi_column closes;
          macd = map2 (\<lambda>a b. a - b) (ewm_mean 12 closes) (ewm_mean 26 closes);
          signal = ewm_mean 9 macd;
          atr = rolling_mean 14 (true_range cs);
          volume_sma = rolling_mean 20 (map c_volume cs)
      in map (\<lambda>i. \<lparr>df_timestamp = c_timestamp (cs ! i), df_open = c_open (cs ! i),
                    df_high = c_high (cs ! i), df_low = c_low (cs ! i),
                    df_close = c_close (cs ! i), df_volume = c_volume (cs ! i),
                    df_rsi = rsi ! i, df_macd = Some (macd ! i), df_signal = Some (signal ! i),
                    df_hist = Some (macd ! i - signal ! i), df_atr = atr ! i,
                    df_volume_sma = volume_sma ! i\<rparr>)
             [0..<length cs])"

text \<open>
  A data frame with its index labels. Lines 107-111: a comparison with an undefined
  value is false, both in \<^verbatim>\<open>df['rsi'] < 1.0\<close> and in \<^verbatim>\<open>df['rsi'] >= 1.0\<close>.
\<close>

definition rsi_lt :: "real \<Rightarrow> row \<Rightarrow> bool" where
  "rsi_lt x r = (case df_rsi r of None \<Rightarrow> False | Some v \<Rightarrow> v < x)"

definition rsi_ge :: "real \<Rightarrow> row \<Rightarrow> bool" where
  "rsi_ge x r = (case df_rsi r of None \<Rightarrow> False | Some v \<Rightarrow> v \<ge> x)"

definition filter_invalid_rsi :: "(nat \<times> row) list \<Rightarrow> (nat \<times> row) list" where
  "filter_invalid_rsi df =
     (let invalid_rsi = filter (\<lambda>(k, r). rsi_lt 1 r) df
      in if invalid_rsi \<noteq> [] then filter (\<lambda>(k, r). rsi_ge 1 r) df else df)"

text \<open>Line 114: \<^verbatim>\<open>reset_index(drop=True)\<close>.\<close>

definition reset_index :: "(nat \<times> 'a) list \<Rightarrow> (nat \<times> 'a) list" where
  "reset_index df = zip [0..<length df] (map snd df)"

definition calculate_indicators :: "candle list \<Rightarrow> (nat \<times> row) list" where
  "calculate_indicators cs =
     reset_index (filter_invalid_rsi (zip [0..<length cs] (indicator_rows cs)))"

text \<open>What the claim on the filter describes: only the rows with a defined RSI below 1.0
  are dropped.\<close>

definition drop_defined_below_one :: "(nat \<times> row) list \<Rightarrow> (nat \<times> row) list" where
  "drop_defined_below_one df = filter (\<lambda>(k, r). \<not> rsi_lt 1 r) df"

section \<open>Runs that differ in their timestamps only\<close>

text \<open>
  To compare the runs on two candle sequences that differ in their timestamps only, the
  timestamps are erased: in a row, in a position (\<^verbatim>\<open>entry_time\<close>), in a trade
  (\<^verbatim>\<open>timestamp\<close>), in a line of \<^verbatim>\<open>partial_conditions.txt\<close>, and in a state.
\<close>

definition untimed_row :: "row \<Rightarrow> row" where
  "untimed_row r = r\<lparr>df_timestamp := 0\<rparr>"

definition untimed_pos :: "position \<Rightarrow> position" where
  "untimed_pos p = p\<lparr>entry_time := 0\<rparr>"

definition untimed_trade :: "trade \<Rightarrow> trade" where
  "untimed_trade t = t\<lparr>th_timestamp := 0\<rparr>"

definition untimed_line :: "partial_line \<Rightarrow> partial_line" where
  "untimed_line l = (0, snd l)"

definition untimed :: "state \<Rightarrow> state" where
  "untimed st =
     st\<lparr>positions := map untimed_pos (positions st),
        trade_history := map untimed_trade (trade_history st),
        partial_file := map untimed_line (partial_file st)\<rparr>"

section \<open>Which position a trade closes\<close>

text \<open>
  Observers of a run, to say of a trade which position it closes and what that position
  has been through. \<open>after_entry\<close> is the first half of the loop body, up to the entry
  evaluation (\<open>None\<close> when lines 142-153 skip the candle); \<open>exit_evaluated df j\<close> says
  that iteration \<open>j\<close> of the run reaches the exit evaluation; \<open>closed_at df j\<close> is the list
  \<^verbatim>\<open>positions_to_close\<close> of iteration \<open>j\<close>, and \<open>closes df n\<close> lists the positions closed
  in the iterations before \<open>n\<close>, each with the index of its iteration, in the order of
  the trade log. \<open>opened_on r p\<close> says that the position \<open>p\<close> carries what lines 232-250
  take from the row \<open>r\<close>, a row whose RSI gives the entry signal; \<open>tracked df n p\<close> is
  what holds of a position after the iterations before \<open>n\<close>.
\<close>

definition after_entry :: "row list \<Rightarrow> nat \<Rightarrow> state \<Rightarrow> state flow option" where
  "after_entry df i st =
     (let r = df ! i
      in case (df_rsi r, df_macd r, df_signal r, df_hist r, df_atr r, df_volume_sma r) of
           (Some rsi, Some macd, Some signal, Some hist, Some atr, Some volume_sma) \<Rightarrow>
             if atr < min_atr then None
             else
               let st1 = (if rsi < rsi_oversold
                          then st\<lparr>rsi_below_threshold_count := rsi_below_threshold_count st + 1\<rparr>
                          else st)
               in Some (entry_phase r i rsi macd signal hist atr volume_sma st1)
         | _ \<Rightarrow> None)"

definition exit_evaluated :: "row list \<Rightarrow> nat \<Rightarrow> bool" where
  "exit_evaluated df j =
     (case after_entry df j (run_loop df j) of
        Some (Fallthrough s) \<Rightarrow> True
      | _ \<Rightarrow> False)"

definition closed_at :: "row list \<Rightarrow> nat \<Rightarrow> position list" where
  "closed_at df j =
     (case after_entry df j (run_loop df j) of
        Some (Fallthrough s) \<Rightarrow> fst (snd (exit_loop (df ! j) j (positions s) s))
      | _ \<Rightarrow> [])"

definition closes :: "row list \<Rightarrow> nat \<Rightarrow> (nat \<times> position) list" where
  "closes df n = concat (map (\<lambda>j. map (Pair j) (closed_at df j)) [1..<n])"

definition opened_on :: "row \<Rightarrow> position \<Rightarrow> bool" where
  "opened_on r p =
     (rsi_lt rsi_oversold r
      \<and> entry_time p = df_timestamp r
      \<and> entry_price p = df_close r * slippage_factor * (1 + fee_percent / 100)
      \<and> df_atr r = Some (atr_at_entry p)
      \<and> df_macd r = Some (macd_at_entry p)
      \<and> df_signal r = Some (signal_at_entry p)
      \<and> df_hist r = Some (hist_at_entry p)
      \<and> stop_loss p = df_close r - atr_at_entry p * atr_sl_multiplier
      \<and> take_profit p = df_close r + atr_at_entry p * atr_tp_multiplier)"

definition tracked :: "row list \<Rightarrow> nat \<Rightarrow> position \<Rightarrow> bool" where
  "tracked df n p =
     (1 \<le> entry_index p \<and> entry_index p < n
      \<and> opened_on (df ! entry_index p) p
      \<and> exit_evaluated df (entry_index p)
      \<and> position_candles p = length (filter (exit_evaluated df) [entry_index p..<n]))"

section \<open>Example inputs\<close>

text \<open>
  Three candles at prices of the order of 15000. The second one gives an entry signal
  that is accepted (size 0.0005, 7.5 of the 10 in cash); the third one gives an entry
  signal too, and its low is below the stop price 14975 of the open position.
\<close>

definition ex_row0 :: row where
  "ex_row0 =
     \<lparr>df_timestamp = 0, df_open = 15000, df_high = 15000, df_low = 15000, df_close = 15000,
      df_volume = 10, df_rsi = None, df_macd = Some 0, df_signal = Some 0, df_hist = Some 0,
      df_atr = None, df_volume_sma = None\<rparr>"

definition ex_row1 :: row where
  "ex_row1 =
     \<lparr>df_timestamp = 300, df_open = 15050, df_high = 15060, df_low = 14990, df_close = 15000,
      df_volume = 10, df_rsi = Some 10, df_macd = Some (- 20), df_signal = Some (- 19),
      df_hist = Some (- 1), df_atr = Some 100, df_volume_sma = Some 8\<rparr>"

definition ex_row2 :: row where
  "ex_row2 =
     \<lparr>df_timestamp = 600, df_open = 15000, df_high = 15010, df_low = 14900, df_close = 14950,
      df_volume = 12, df_rsi = Some 8, df_macd = Some (- 25), df_signal = Some (- 21),
      df_hist = Some (- 4), df_atr = Some 100, df_volume_sma = Some 9\<rparr>"

definition ex_rejected :: "row list" where
  "ex_rejected = [ex_row0, ex_row1, ex_row2]"

text \<open>The same first two candles, followed by one without entry signal (RSI 50) whose
  range holds both the stop price 14975 and the take price 15500.\<close>

definition ex_row3 :: row where
  "ex_row3 =
     \<lparr>df_timestamp = 600, df_open = 15000, df_high = 15600, df_low = 14900, df_close = 14950,
      df_volume = 12, df_rsi = Some 50, df_macd = Some (- 25), df_signal = Some (- 21),
      df_hist = Some (- 4), df_atr = Some 100, df_volume_sma = Some 9\<rparr>"

definition ex_stopped :: "row list" where
  "ex_stopped = [ex_row0, ex_row1, ex_row3]"

text \<open>The same first two candles, followed by one without entry signal that reaches the
  take price only.\<close>

definition ex_row4 :: row where
  "ex_row4 =
     \<lparr>df_timestamp = 600, df_open = 15000, df_high = 15600, df_low = 14980, df_close = 15550,
      df_volume = 12, df_rsi = Some 50, df_macd = Some 5, df_signal = Some 1,
      df_hist = Some 4, df_atr = Some 100, df_volume_sma = Some 9\<rparr>"

definition ex_won :: "row list" where
  "ex_won = [ex_row0, ex_row1, ex_row4]"

text \<open>The state of these three runs after the second candle: one open position.\<close>

definition ex_open :: state where
  "ex_open =
     \<lparr>balance = 3991 / 1600,
      positions =
        [\<lparr>entry_price = 11996991 / 800, size_pos = 1 / 2000, stop_loss = 14975,
          take_profit = 15500, entry_index = 1, entry_time = 300, macd_at_entry = - 20,
          signal_at_entry = - 19, hist_at_entry = - 1, atr_at_entry = 100,
          position_candles = 1\<rparr>],
      trade_history = [], usdt_balance = 3991 / 1600, sol_balance = 1 / 2000, trades = 0,
      wins = 0, rsi_below_threshold_count = 1, partial_condition_count = 1,
      partial_file = [(300, 10, - 20, - 19, - 1)]\<rparr>"

text \<open>The candles of \<open>ex_stopped\<close>, the last one a day late.\<close>

definition ex_gapped :: "row list" where
  "ex_gapped = [ex_row0, ex_row1, ex_row3\<lparr>df_timestamp := 86400\<rparr>]"

text \<open>
  The candles of \<open>ex_stopped\<close> with one more candle before the last, skipped for its
  undefined indicators; and the position that the runs \<open>ex_stopped\<close> and \<open>ex_paused\<close>
  close, as it is in \<^verbatim>\<open>positions_to_close\<close>.
\<close>

definition ex_paused :: "row list" where
  "ex_paused =
     [ex_row0, ex_row1, ex_row0\<lparr>df_timestamp := 600\<rparr>, ex_row3\<lparr>df_timestamp := 900\<rparr>]"

definition ex_closed :: position where
  "ex_closed =
     \<lparr>entry_price = 11996991 / 800, size_pos = 1 / 2000, stop_loss = 14975,
      take_profit = 15500, entry_index = 1, entry_time = 300, macd_at_entry = - 20,
      signal_at_entry = - 19, hist_at_entry = - 1, atr_at_entry = 100,
      position_candles = 2\<rparr>"

text \<open>Candles at a close of 100 that all give an entry signal and touch neither stop
  nor take price: three entries are accepted, the fourth signal finds the ledger full.\<close>

definition ex_signal :: "int \<Rightarrow> row" where
  "ex_signal t =
     \<lparr>df_timestamp = t, df_open = 100, df_high = 101, df_low = 99 + 1 / 2, df_close = 100,
      df_volume = 10, df_rsi = Some 10, df_macd = Some (- 2), df_signal = Some (- 1),
      df_hist = Some (- 1), df_atr = Some 4, df_volume_sma = Some 8\<rparr>"

definition ex_full :: "row list" where
  "ex_full = [ex_signal 0, ex_signal 300, ex_signal 600, ex_signal 900, ex_signal 1200]"

text \<open>Sixteen candles: the close falls by 1 from 100 to 86, then jumps to 200.\<close>

definition ex_candle :: "nat \<Rightarrow> real \<Rightarrow> candle" where
  "ex_candle k cl =
     \<lparr>c_timestamp = 300 * int k, c_open = cl, c_high = cl + 1, c_low = cl - 1, c_close = cl,
      c_volume = 10\<rparr>"

definition ex_candles :: "candle list" where
  "ex_candles =
     map (\<lambda>k. ex_candle k (if k < 15 then 100 - real k else 200)) [0..<16]"

section \<open>Facts about the parameters and the rounding\<close>

lemmas params =
  rsi_oversold_def min_hist_threshold_def fee_percent_def slippage_factor_def
  atr_sl_multiplier_def atr_tp_multiplier_def risk_per_trade_def min_order_size_def
  max_hold_candles_def leverage_def initial_balance_def min_atr_def max_positions_def


lemmas model_defs =
  run_loop_def loop_body_def entry_phase_def enter_position_def entry_rejected_def
  position_size_usdt_def trade_size_def raw_size_def risk_amount_def round4_def
  round_half_even_def note_partial_def exit_phase_def exit_check_def close_position_def
  bump_def init_state_def Let_def

lemma round_half_even_ge: "of_int k \<le> x \<Longrightarrow> k \<le> round_half_even x"
proof -
  assume "of_int k \<le> x"
  then have "k \<le> \<lfloor>x\<rfloor>" by (simp add: le_floor_iff)
  then show ?thesis by (simp add: round_half_even_def Let_def)
qed

lemma trade_size_ge_min: "min_order_size \<le> trade_size bal cl"
proof -
  have "of_int 5 \<le> max (raw_size bal cl) min_order_size * 10000"
    by (simp add: min_order_size_def max_def)
  then have "5 \<le> round_half_even (max (raw_size bal cl) min_order_size * 10000)"
    by (rule round_half_even_ge)
  then have "(5::real) \<le> of_int (round_half_even (max (raw_size bal cl) min_order_size * 10000))"
    by linarith
  then show ?thesis
    by (simp add: trade_size_def round4_def min_order_size_def)
qed

lemma entry_rejected_iff:
  assumes "0 < cl"
  shows "entry_rejected bal cl \<longleftrightarrow> bal < position_size_usdt bal cl"
proof -
  have "min_order_size * cl \<le> trade_size bal cl * cl"
    using trade_size_ge_min [of bal cl] assms by (simp add: mult_right_mono)
  then show ?thesis by (auto simp: entry_rejected_def)
qed

section \<open>Entry evaluation: what it changes\<close>

lemma note_partial_keeps:
  "positions (note_partial r rsi macd signal hist st) = positions st"
  "balance (note_partial r rsi macd signal hist st) = balance st"
  "usdt_balance (note_partial r rsi macd signal hist st) = usdt_balance st"
  "sol_balance (note_partial r rsi macd signal hist st) = sol_balance st"
  "trade_history (note_partial r rsi macd signal hist st) = trade_history st"
  by (simp_all add: note_partial_def)

lemma enter_position_cases:
  "enter_position r i macd signal hist atr st =
     (if entry_rejected (balance st) (df_close r) then Continue st
      else Fallthrough
        (st\<lparr>positions := positions st @
               [\<lparr>entry_price = df_close r * slippage_factor * (1 + fee_percent / 100),
                 size_pos = trade_size (balance st) (df_close r),
                 stop_loss = df_close r - atr * atr_sl_multiplier,
                 take_profit = df_close r + atr * atr_tp_multiplier,
                 entry_index = i, entry_time = df_timestamp r, macd_at_entry = macd,
                 signal_at_entry = signal, hist_at_entry = hist, atr_at_entry = atr,
                 position_candles = 0\<rparr>],
             balance := balance st
                        - position_size_usdt (balance st) (df_close r) * (1 + fee_percent / 100),
             usdt_balance := balance st
                        - position_size_usdt (balance st) (df_close r) * (1 + fee_percent / 100),
             sol_balance := sol_balance st + trade_size (balance st) (df_close r)\<rparr>))"
  by (simp add: enter_position_def Let_def)

lemma entry_phase_Continue:
  assumes "entry_phase r i rsi macd signal hist atr vsma st = Continue st2"
  shows "positions st2 = positions st \<and> sol_balance st2 = sol_balance st \<and>
    balance st2 = balance st \<and> usdt_balance st2 = usdt_balance st \<and>
    trade_history st2 = trade_history st"
  using assms
  by (auto simp: entry_phase_def enter_position_cases Let_def note_partial_keeps
      split: if_splits)

lemma entry_phase_length:
  "length (positions (flow_state (entry_phase r i rsi macd signal hist atr vsma st)))
     \<le> Suc (length (positions st))"
  by (simp add: entry_phase_def enter_position_cases Let_def note_partial_keeps)

lemma entry_phase_bounded:
  "length (positions st) \<le> max_positions \<Longrightarrow>
   length (positions (flow_state (entry_phase r i rsi macd signal hist atr vsma st)))
     \<le> max_positions"
  by (simp add: entry_phase_def enter_position_cases Let_def note_partial_keeps)

lemma entry_phase_full:
  "\<not> length (positions st) < max_positions \<Longrightarrow>
   entry_phase r i rsi macd signal hist atr vsma st = Fallthrough st"
  by (simp add: entry_phase_def)

section \<open>Exit evaluation: what it changes\<close>

lemma exit_loop_fst: "fst (exit_loop r i ps st) = map bump ps"
  by (induction ps arbitrary: st) (simp_all add: Let_def split_beta split: option.splits)

lemma exit_loop_to_close:
  "fst (snd (exit_loop r i ps st)) = filter (\<lambda>p. exit_check r p \<noteq> None) (map bump ps)"
  by (induction ps arbitrary: st) (simp_all add: Let_def split_beta split: option.splits)

lemma length_fold_remove1: "length (fold remove1 xs ys) \<le> length ys"
proof (induction xs arbitrary: ys)
  case Nil
  then show ?case by simp
next
  case (Cons x xs)
  have "length (fold remove1 xs (remove1 x ys)) \<le> length (remove1 x ys)"
    by (rule Cons.IH)
  also have "\<dots> \<le> length ys"
    by (simp add: length_remove1)
  finally show ?case by simp
qed

lemma exit_phase_positions:
  "positions (exit_phase r i st) =
     fold remove1 (fst (snd (exit_loop r i (positions st) st)))
       (fst (exit_loop r i (positions st) st))"
  by (simp add: exit_phase_def Let_def split: prod.splits)

lemma exit_phase_sol_balance:
  "sol_balance (exit_phase r i st) = sum_list (map size_pos (positions (exit_phase r i st)))"
  by (simp add: exit_phase_def Let_def split: prod.splits)

lemma exit_phase_length: "length (positions (exit_phase r i st)) \<le> length (positions st)"
proof -
  have "length (positions (exit_phase r i st)) \<le> length (fst (exit_loop r i (positions st) st))"
    unfolding exit_phase_positions by (rule length_fold_remove1)
  then show ?thesis by (simp add: exit_loop_fst)
qed

section \<open>Invariants of the loop\<close>

lemma run_loop_0: "run_loop df 0 = init_state"
  by (simp add: run_loop_def)

lemma run_loop_Suc:
  "run_loop df (Suc n) = (if n = 0 then init_state else loop_body df n (run_loop df n))"
  by (simp add: run_loop_def)

lemma loop_body_sol:
  assumes "sol_balance st = sum_list (map size_pos (positions st))"
  shows "sol_balance (loop_body df i st)
           = sum_list (map size_pos (positions (loop_body df i st)))"
  using assms unfolding loop_body_def Let_def
  by (auto split: option.splits flow.splits simp: exit_phase_sol_balance
      dest!: entry_phase_Continue)

lemma run_loop_sol:
  "sol_balance (run_loop df n) = sum_list (map size_pos (positions (run_loop df n)))"
proof (induction n)
  case 0
  show ?case by (simp add: run_loop_0 init_state_def)
next
  case (Suc n)
  show ?case
  proof (cases "n = 0")
    case True
    then show ?thesis by (simp add: run_loop_Suc init_state_def)
  next
    case False
    then show ?thesis using loop_body_sol [OF Suc.IH] by (simp add: run_loop_Suc)
  qed
qed

lemma loop_body_bounded:
  assumes "length (positions st) \<le> max_positions"
  shows "length (positions (loop_body df i st)) \<le> max_positions"
proof -
  have *: "length (positions (exit_phase r i st2)) \<le> max_positions"
    if "entry_phase r i rsi macd signal hist atr vsma st1 = Fallthrough st2"
      and "length (positions st1) \<le> max_positions"
    for r rsi macd signal hist atr vsma st1 st2
  proof -
    have "length (positions st2) \<le> max_positions"
      using entry_phase_bounded [OF that(2), of r i rsi macd signal hist atr vsma] that(1)
      by simp
    then show ?thesis using exit_phase_length [of r i st2] by simp
  qed
  show ?thesis
    using assms unfolding loop_body_def Let_def
    by (auto split: option.splits flow.splits simp: * dest!: entry_phase_Continue)
qed

lemma loop_body_length:
  "length (positions (loop_body df i st)) \<le> Suc (length (positions st))"
proof -
  have *: "length (positions (case entry_phase r i a b c d e f s of
                                Continue s2 \<Rightarrow> s2 | Fallthrough s2 \<Rightarrow> exit_phase r i s2))
             \<le> Suc (length (positions s))" for r a b c d e f s
  proof (cases "entry_phase r i a b c d e f s")
    case (Continue s2)
    with entry_phase_length [of r i a b c d e f s] show ?thesis by simp
  next
    case (Fallthrough s2)
    with entry_phase_length [of r i a b c d e f s]
    have "length (positions s2) \<le> Suc (length (positions s))" by simp
    with exit_phase_length [of r i s2] show ?thesis using Fallthrough by simp
  qed
  have **: "length (positions (case entry_phase r i a b c d e f (st\<lparr>rsi_below_threshold_count := k\<rparr>) of
                                Continue s2 \<Rightarrow> s2 | Fallthrough s2 \<Rightarrow> exit_phase r i s2))
             \<le> Suc (length (positions st))" for r a b c d e f k
    using * [of r a b c d e f "st\<lparr>rsi_below_threshold_count := k\<rparr>"] by simp
  show ?thesis
    unfolding loop_body_def Let_def
    by (simp add: * ** split: option.splits)
qed

lemma run_loop_bounded: "length (positions (run_loop df n)) \<le> max_positions"
proof (induction n)
  case 0
  show ?case by (simp add: run_loop_0 init_state_def)
next
  case (Suc n)
  show ?case
  proof (cases "n = 0")
    case True
    then show ?thesis by (simp add: run_loop_Suc init_state_def)
  next
    case False
    then show ?thesis using loop_body_bounded [OF Suc.IH] by (simp add: run_loop_Suc)
  qed
qed

section \<open>The trade log\<close>

lemma close_position_history:
  "trade_history (close_position r i pos ep et st) \<noteq> [] \<and>
   butlast (trade_history (close_position r i pos ep et st)) = trade_history st \<and>
   th_exit_type (last (trade_history (close_position r i pos ep et st))) = et \<and>
   th_candles_held (last (trade_history (close_position r i pos ep et st)))
     = int i - int (entry_index pos)"
  by (simp add: close_position_def Let_def)

lemma close_position_exit_types:
  "map th_exit_type (trade_history (close_position r i pos ep et st))
     = map th_exit_type (trade_history st) @ [et]"
  by (simp add: close_position_def Let_def)

lemma close_position_candles_held:
  "map th_candles_held (trade_history (close_position r i pos ep et st))
     = map th_candles_held (trade_history st) @ [int i - int (entry_index pos)]"
  by (simp add: close_position_def Let_def)

lemma exit_loop_exit_types:
  "map th_exit_type (trade_history (snd (snd (exit_loop r i ps st))))
     = map th_exit_type (trade_history st)
       @ List.map_filter (\<lambda>p. map_option snd (exit_check r (bump p))) ps"
  by (induction ps arbitrary: st)
    (simp_all add: Let_def split_beta map_filter_simps close_position_exit_types
      split: option.splits)

lemma exit_loop_candles_held:
  "map th_candles_held (trade_history (snd (snd (exit_loop r i ps st))))
     = map th_candles_held (trade_history st)
       @ map (\<lambda>p. int i - int (entry_index p)) (fst (snd (exit_loop r i ps st)))"
  by (induction ps arbitrary: st)
    (simp_all add: Let_def split_beta close_position_candles_held bump_def
      split: option.splits)

lemma exit_phase_history:
  "trade_history (exit_phase r i st)
     = trade_history (snd (snd (exit_loop r i (positions st) st)))"
  by (simp add: exit_phase_def Let_def split: prod.splits)

lemma exit_check_types: "exit_check r p = Some (ep, et) \<Longrightarrow> et \<in> exit_types"
  by (auto simp: exit_check_def split: if_splits)

lemma map_filter_exit_types:
  "set (List.map_filter (\<lambda>p. map_option snd (exit_check r (bump p))) ps) \<subseteq> exit_types"
  by (auto simp: List.map_filter_def dest: exit_check_types)

lemma exit_phase_types:
  assumes "set (map th_exit_type (trade_history st)) \<subseteq> exit_types"
  shows "set (map th_exit_type (trade_history (exit_phase r i st))) \<subseteq> exit_types"
  using assms map_filter_exit_types [of r "positions st"]
  unfolding exit_phase_history exit_loop_exit_types by simp

lemma loop_body_invariant:
  assumes "P st"
    and count: "\<And>s c. P s \<Longrightarrow> P (s\<lparr>rsi_below_threshold_count := c\<rparr>)"
    and entry: "\<And>r i rsi macd signal hist atr vsma s.
           P s \<Longrightarrow> P (flow_state (entry_phase r i rsi macd signal hist atr vsma s))"
    and exit: "\<And>r i s. P s \<Longrightarrow> P (exit_phase r i s)"
  shows "P (loop_body df i st)"
proof -
  have step: "P (case entry_phase r i a b c d e f s of
                   Continue s2 \<Rightarrow> s2 | Fallthrough s2 \<Rightarrow> exit_phase r i s2)"
    if "P s" for r a b c d e f s
  proof (cases "entry_phase r i a b c d e f s")
    case (Continue s2)
    with entry [OF that, of r i a b c d e f] show ?thesis by simp
  next
    case (Fallthrough s2)
    with entry [OF that, of r i a b c d e f] have "P s2" by simp
    then show ?thesis using Fallthrough by (simp add: exit)
  qed
  show ?thesis
    unfolding loop_body_def Let_def
    by (auto split: option.splits simp: assms(1) count intro!: step)
qed

lemma run_loop_invariant:
  assumes "P init_state"
    and count: "\<And>s c. P s \<Longrightarrow> P (s\<lparr>rsi_below_threshold_count := c\<rparr>)"
    and entry: "\<And>r i rsi macd signal hist atr vsma s.
           P s \<Longrightarrow> P (flow_state (entry_phase r i rsi macd signal hist atr vsma s))"
    and exit: "\<And>r i s. P s \<Longrightarrow> P (exit_phase r i s)"
  shows "P (run_loop df n)"
proof (induction n)
  case 0
  show ?case by (simp add: run_loop_0 assms(1))
next
  case (Suc n)
  show ?case
  proof (cases "n = 0")
    case True
    then show ?thesis by (simp add: run_loop_Suc assms(1))
  next
    case False
    have "P (loop_body df n (run_loop df n))"
      using Suc.IH count entry exit by (rule loop_body_invariant)
    then show ?thesis using False by (simp add: run_loop_Suc)
  qed
qed

lemma entry_phase_history:
  "trade_history (flow_state (entry_phase r i rsi macd signal hist atr vsma st)) = trade_history st"
  by (simp add: entry_phase_def enter_position_cases Let_def note_partial_keeps)

lemma run_loop_types:
  "set (map th_exit_type (trade_history (run_loop df n))) \<subseteq> exit_types"
proof (rule run_loop_invariant)
  show "set (map th_exit_type (trade_history init_state)) \<subseteq> exit_types"
    by (simp add: init_state_def)
next
  fix s :: state and c
  assume "set (map th_exit_type (trade_history s)) \<subseteq> exit_types"
  then show "set (map th_exit_type (trade_history (s\<lparr>rsi_below_threshold_count := c\<rparr>))) \<subseteq> exit_types"
    by simp
next
  fix r i rsi macd signal hist atr vsma and s :: state
  assume "set (map th_exit_type (trade_history s)) \<subseteq> exit_types"
  then show "set (map th_exit_type (trade_history (flow_state (entry_phase r i rsi macd signal hist atr vsma s)))) \<subseteq> exit_types"
    by (simp only: entry_phase_history)
next
  fix r i and s :: state
  assume "set (map th_exit_type (trade_history s)) \<subseteq> exit_types"
  then show "set (map th_exit_type (trade_history (exit_phase r i s))) \<subseteq> exit_types"
    by (rule exit_phase_types)
qed

lemma priority_fun:
  "(\<lambda>p. map_option snd (exit_check r (bump p))) =
   (\<lambda>pos. if df_low r \<le> stop_loss pos then Some ''Stop Loss''
           else if take_profit pos \<le> df_high r then Some ''Take Profit''
           else if max_hold_candles \<le> position_candles pos + 1 then Some ''Time Exit''
           else None)"
  by (auto simp: exit_check_def bump_def fun_eq_iff)

section \<open>Sums of losses\<close>

lemma sum_list_nonpos:
  fixes xs :: "real list"
  shows "\<forall>x \<in> set xs. x < 0 \<Longrightarrow> sum_list xs \<le> 0"
  by (induction xs) (simp_all add: add_nonpos_nonpos less_imp_le)

lemma sum_list_neg:
  fixes xs :: "real list"
  assumes "\<forall>x \<in> set xs. x < 0" and "xs \<noteq> []"
  shows "sum_list xs < 0"
proof (cases xs)
  case Nil
  with assms(2) show ?thesis by simp
next
  case (Cons x rest)
  with assms(1) have "x < 0" and "sum_list rest \<le> 0"
    by (simp_all add: sum_list_nonpos)
  then show ?thesis using Cons by simp
qed

lemma gross_loss_zero_iff: "gross_loss th = 0 \<longleftrightarrow> \<not> (\<exists>t \<in> set th. th_profit_loss t < 0)"
proof (cases "\<exists>t \<in> set th. th_profit_loss t < 0")
  case True
  then have "filter (\<lambda>t. th_profit_loss t < 0) th \<noteq> []"
    by (simp add: filter_empty_conv)
  then have "sum_list (map th_profit_loss (filter (\<lambda>t. th_profit_loss t < 0) th)) < 0"
    by (intro sum_list_neg) auto
  then show ?thesis using True by (simp add: gross_loss_def)
next
  case False
  then have "filter (\<lambda>t. th_profit_loss t < 0) th = []"
    by (simp add: filter_empty_conv)
  then show ?thesis using False by (simp add: gross_loss_def)
qed

section \<open>The removal of the closed positions\<close>

lemma fold_remove1_filter_aux:
  "\<forall>z \<in> set zs. \<not> P z \<Longrightarrow>
   fold remove1 (filter P xs) (zs @ xs) = zs @ filter (\<lambda>x. \<not> P x) xs"
proof (induction xs arbitrary: zs)
  case Nil
  then show ?case by simp
next
  case (Cons x xs)
  show ?case
  proof (cases "P x")
    case True
    with Cons.prems have "x \<notin> set zs" by auto
    then have "remove1 x (zs @ x # xs) = zs @ xs"
      by (simp add: remove1_append)
    then show ?thesis using True Cons.IH [OF Cons.prems] by simp
  next
    case False
    with Cons.prems have "\<forall>z \<in> set (zs @ [x]). \<not> P z" by simp
    from Cons.IH [OF this] show ?thesis using False by simp
  qed
qed

lemma fold_remove1_filter: "fold remove1 (filter P xs) xs = filter (\<lambda>x. \<not> P x) xs"
  using fold_remove1_filter_aux [of "[]" P xs] by simp

lemma fold_remove1_exit:
  "fold remove1 (filter (\<lambda>p. exit_check r p \<noteq> None) ps) ps
     = filter (\<lambda>p. exit_check r p = None) ps"
proof -
  have "filter (\<lambda>p. \<not> exit_check r p \<noteq> None) ps = filter (\<lambda>p. exit_check r p = None) ps"
    by (rule filter_cong) (rule refl, blast)
  then show ?thesis
    unfolding fold_remove1_filter .
qed

lemma exit_phase_remaining:
  "positions (exit_phase r i st)
     = filter (\<lambda>p. exit_check r p = None) (map bump (positions st))"
  unfolding exit_phase_positions exit_loop_fst exit_loop_to_close
  by (rule fold_remove1_exit)

section \<open>The timestamps do not steer the run\<close>

lemma untimed_note_partial:
  "untimed (note_partial r rsi macd signal hist st)
     = note_partial (untimed_row r) rsi macd signal hist (untimed st)"
  by (simp add: note_partial_def untimed_def untimed_row_def untimed_line_def)

lemma untimed_enter_position:
  "map_flow untimed (enter_position r i macd signal hist atr st)
     = enter_position (untimed_row r) i macd signal hist atr (untimed st)"
  by (simp add: enter_position_cases untimed_def untimed_row_def untimed_pos_def)

lemma untimed_entry_phase:
  "map_flow untimed (entry_phase r i rsi macd signal hist atr vsma st)
     = entry_phase (untimed_row r) i rsi macd signal hist atr vsma (untimed st)"
proof -
  have len: "length (positions (untimed st)) = length (positions st)"
    by (simp add: untimed_def)
  have vol: "df_volume (untimed_row r) = df_volume r"
    by (simp add: untimed_row_def)
  show ?thesis
    unfolding entry_phase_def Let_def len vol
    by (simp add: untimed_enter_position untimed_note_partial)
qed

lemma untimed_exit_check: "exit_check (untimed_row r) (untimed_pos p) = exit_check r p"
  by (simp add: exit_check_def untimed_row_def untimed_pos_def)

lemma untimed_bump: "bump (untimed_pos p) = untimed_pos (bump p)"
  by (simp add: bump_def untimed_pos_def)

lemma untimed_close_position:
  "untimed (close_position r i p ep et st)
     = close_position (untimed_row r) i (untimed_pos p) ep et (untimed st)"
  by (simp add: close_position_def Let_def untimed_def untimed_row_def untimed_pos_def
      untimed_trade_def)

lemma untimed_exit_loop:
  "exit_loop (untimed_row r) i (map untimed_pos ps) (untimed st)
     = (map untimed_pos (fst (exit_loop r i ps st)),
        map untimed_pos (fst (snd (exit_loop r i ps st))),
        untimed (snd (snd (exit_loop r i ps st))))"
  by (induction ps arbitrary: st)
    (simp_all add: Let_def split_beta untimed_bump untimed_exit_check
      untimed_close_position [symmetric] split: option.splits)

lemma exit_loop_keeps:
  "positions (snd (snd (exit_loop r i ps st))) = positions st"
  by (induction ps arbitrary: st)
    (simp_all add: Let_def split_beta close_position_def split: option.splits)

lemma exit_phase_alt:
  "exit_phase r i st =
     (snd (snd (exit_loop r i (positions st) st)))
       \<lparr>positions := filter (\<lambda>p. exit_check r p = None) (map bump (positions st)),
        sol_balance :=
          (if filter (\<lambda>p. exit_check r p = None) (map bump (positions st)) \<noteq> []
           then sum_list (map size_pos
                  (filter (\<lambda>p. exit_check r p = None) (map bump (positions st))))
           else 0)\<rparr>"
proof -
  have "fold remove1 (fst (snd (exit_loop r i (positions st) st)))
          (fst (exit_loop r i (positions st) st))
        = filter (\<lambda>p. exit_check r p = None) (map bump (positions st))"
    unfolding exit_loop_fst exit_loop_to_close by (rule fold_remove1_exit)
  then show ?thesis
    by (simp add: exit_phase_def Let_def split_beta)
qed

lemma untimed_filter:
  "filter (\<lambda>p. exit_check (untimed_row r) p = None) (map bump (map untimed_pos ps))
     = map untimed_pos (filter (\<lambda>p. exit_check r p = None) (map bump ps))"
  by (induction ps) (simp_all add: untimed_bump untimed_exit_check)

lemma untimed_exit_phase:
  "untimed (exit_phase r i st) = exit_phase (untimed_row r) i (untimed st)"
proof -
  have pos: "positions (untimed st) = map untimed_pos (positions st)"
    by (simp add: untimed_def)
  have size: "map size_pos (map untimed_pos ps) = map size_pos ps" for ps
    by (simp add: untimed_pos_def)
  have upd: "untimed (s\<lparr>positions := ps, sol_balance := b\<rparr>)
      = (untimed s)\<lparr>positions := map untimed_pos ps, sol_balance := b\<rparr>" for s ps b
    by (simp add: untimed_def)
  show ?thesis
    unfolding exit_phase_alt [of "untimed_row r"] pos untimed_exit_loop untimed_filter
    unfolding exit_phase_alt [of r] upd
    by (simp add: size del: map_map)
qed

lemma untimed_loop_body:
  assumes "i < length df"
  shows "untimed (loop_body df i st) = loop_body (map untimed_row df) i (untimed st)"
proof -
  have ind: "df_rsi (untimed_row r) = df_rsi r" "df_macd (untimed_row r) = df_macd r"
    "df_signal (untimed_row r) = df_signal r" "df_hist (untimed_row r) = df_hist r"
    "df_atr (untimed_row r) = df_atr r" "df_volume_sma (untimed_row r) = df_volume_sma r"
    for r
    by (simp_all add: untimed_row_def)
  have cnt: "untimed (s\<lparr>rsi_below_threshold_count := c\<rparr>)
      = (untimed s)\<lparr>rsi_below_threshold_count := c\<rparr>" for s c
    by (simp add: untimed_def)
  have cnt2: "rsi_below_threshold_count (untimed s) = rsi_below_threshold_count s" for s
    by (simp add: untimed_def)
  have flow: "untimed (case f of Continue s2 \<Rightarrow> s2 | Fallthrough s2 \<Rightarrow> exit_phase r i s2)
      = (case map_flow untimed f of
           Continue s2 \<Rightarrow> s2 | Fallthrough s2 \<Rightarrow> exit_phase (untimed_row r) i s2)" for f r
    by (cases f) (simp_all add: untimed_exit_phase)
  show ?thesis
    unfolding loop_body_def Let_def nth_map [OF assms]
    by (simp add: ind flow untimed_entry_phase cnt cnt2 split: option.splits)
qed

lemma untimed_init: "untimed init_state = init_state"
  by (simp add: untimed_def init_state_def)

lemma untimed_run_loop:
  "n \<le> length df \<Longrightarrow> untimed (run_loop df n) = run_loop (map untimed_row df) n"
proof (induction n)
  case 0
  show ?case by (simp add: run_loop_0 untimed_init)
next
  case (Suc n)
  then have "n < length df" and IH: "untimed (run_loop df n) = run_loop (map untimed_row df) n"
    by simp_all
  then show ?case
    by (simp add: run_loop_Suc untimed_init untimed_loop_body)
qed

lemma untimed_candles_held:
  "map th_candles_held (trade_history (untimed st)) = map th_candles_held (trade_history st)"
  by (simp add: untimed_def untimed_trade_def)

lemma retimed_candles_held:
  assumes "map untimed_row df1 = map untimed_row df2" and "n \<le> length df1"
  shows "map th_candles_held (trade_history (run_loop df1 n))
       = map th_candles_held (trade_history (run_loop df2 n))"
proof -
  have "length df1 = length df2"
    using arg_cong [OF assms(1), of length] by simp
  with assms(2) have "n \<le> length df2" by simp
  from untimed_run_loop [OF assms(2)] untimed_run_loop [OF this] assms(1)
  have "untimed (run_loop df1 n) = untimed (run_loop df2 n)" by simp
  then have "map th_candles_held (trade_history (untimed (run_loop df1 n)))
    = map th_candles_held (trade_history (untimed (run_loop df2 n)))" by simp
  then show ?thesis by (simp only: untimed_candles_held)
qed

section \<open>The positions of a run and their counters\<close>

lemma loop_body_after_entry:
  "loop_body df i st =
     (case after_entry df i st of
        None \<Rightarrow> st
      | Some (Continue s) \<Rightarrow> s
      | Some (Fallthrough s) \<Rightarrow> exit_phase (df ! i) i s)"
  unfolding loop_body_def after_entry_def Let_def
  by (simp split: option.splits flow.splits)

lemma entry_phase_positions:
  assumes "df_rsi r = Some rsi" "df_macd r = Some macd" "df_signal r = Some signal"
    "df_hist r = Some hist" "df_atr r = Some atr"
  shows "positions (flow_state (entry_phase r i rsi macd signal hist atr vsma st)) = positions st
    \<or> (\<exists>p. entry_phase r i rsi macd signal hist atr vsma st \<noteq> Continue (flow_state (entry_phase r i rsi macd signal hist atr vsma st))
          \<and> positions (flow_state (entry_phase r i rsi macd signal hist atr vsma st)) = positions st @ [p]
          \<and> entry_index p = i \<and> position_candles p = 0 \<and> opened_on r p)"
  using assms
  by (simp add: entry_phase_def enter_position_cases Let_def note_partial_keeps opened_on_def
      rsi_lt_def)

lemma after_entry_Some:
  assumes "after_entry df i st = Some f"
  shows "trade_history (flow_state f) = trade_history st"
    and "positions (flow_state f) = positions st
      \<or> (\<exists>p. f \<noteq> Continue (flow_state f) \<and> positions (flow_state f) = positions st @ [p]
            \<and> entry_index p = i \<and> position_candles p = 0 \<and> opened_on (df ! i) p)"
proof -
  define st1 where "st1 = (\<lambda>rsi. if rsi < rsi_oversold
      then st\<lparr>rsi_below_threshold_count := rsi_below_threshold_count st + 1\<rparr> else st)"
  have st1: "positions (st1 rsi) = positions st" "trade_history (st1 rsi) = trade_history st"
    for rsi
    by (simp_all add: st1_def)
  from assms obtain rsi macd signal hist atr vsma where
    r: "df_rsi (df ! i) = Some rsi" "df_macd (df ! i) = Some macd"
      "df_signal (df ! i) = Some signal" "df_hist (df ! i) = Some hist"
      "df_atr (df ! i) = Some atr"
    and v: "df_volume_sma (df ! i) = Some vsma" "\<not> atr < min_atr"
    unfolding after_entry_def Let_def
    by (auto split: option.splits if_splits)
  with assms have f: "f = entry_phase (df ! i) i rsi macd signal hist atr vsma (st1 rsi)"
    unfolding after_entry_def Let_def st1_def by simp
  show "trade_history (flow_state f) = trade_history st"
    by (simp add: f entry_phase_history st1)
  show "positions (flow_state f) = positions st
      \<or> (\<exists>p. f \<noteq> Continue (flow_state f) \<and> positions (flow_state f) = positions st @ [p]
            \<and> entry_index p = i \<and> position_candles p = 0 \<and> opened_on (df ! i) p)"
    using entry_phase_positions [OF r, of i vsma "st1 rsi"] by (simp add: f st1)
qed


lemma exit_evaluated_iff:
  "exit_evaluated df j \<longleftrightarrow> (\<exists>s. after_entry df j (run_loop df j) = Some (Fallthrough s))"
  by (auto simp: exit_evaluated_def split: option.splits flow.splits)

lemma opened_on_bump: "opened_on r (bump p) = opened_on r p"
  by (simp add: opened_on_def bump_def)

lemma bump_fields:
  "entry_index (bump p) = entry_index p" "position_candles (bump p) = Suc (position_candles p)"
  by (simp_all add: bump_def)

lemma tracked_skip:
  assumes "tracked df n p" and "\<not> exit_evaluated df n"
  shows "tracked df (Suc n) p"
  using assms by (simp add: tracked_def)

lemma tracked_bump:
  assumes "tracked df n p" and "exit_evaluated df n"
  shows "tracked df (Suc n) (bump p)"
  using assms by (simp add: tracked_def opened_on_bump bump_fields)

lemma tracked_fresh:
  assumes "1 \<le> n" "entry_index p = n" "position_candles p = 0" "opened_on (df ! n) p"
    and "exit_evaluated df n"
  shows "tracked df (Suc n) (bump p)"
  using assms by (simp add: tracked_def opened_on_bump bump_fields)

lemma bumped_tracked:
  assumes inv: "\<forall>p \<in> set (positions (run_loop df n)). tracked df n p"
    and n: "1 \<le> n"
    and ae: "after_entry df n (run_loop df n) = Some (Fallthrough s)"
    and q: "q \<in> set (positions s)"
  shows "tracked df (Suc n) (bump q)"
proof -
  have ev: "exit_evaluated df n"
    using ae by (auto simp: exit_evaluated_iff)
  from after_entry_Some(2) [OF ae]
  consider "positions s = positions (run_loop df n)"
    | p where "positions s = positions (run_loop df n) @ [p]" "entry_index p = n"
        "position_candles p = 0" "opened_on (df ! n) p"
    by auto
  then show ?thesis
  proof cases
    case 1
    with q inv have "tracked df n q" by simp
    then show ?thesis using ev by (rule tracked_bump)
  next
    case 2
    show ?thesis
    proof (cases "q = p")
      case True
      then show ?thesis using 2 n ev by (simp add: tracked_fresh)
    next
      case False
      with q 2(1) inv have "tracked df n q" by simp
      then show ?thesis using ev by (rule tracked_bump)
    qed
  qed
qed

lemma run_loop_tracked: "\<forall>p \<in> set (positions (run_loop df n)). tracked df n p"
proof (induction n)
  case 0
  show ?case by (simp add: run_loop_0 init_state_def)
next
  case (Suc n)
  show ?case
  proof (cases "n = 0")
    case True
    then show ?thesis by (simp add: run_loop_Suc init_state_def)
  next
    case False
    then have n: "1 \<le> n" by simp
    have step: "run_loop df (Suc n) = loop_body df n (run_loop df n)"
      using False by (simp add: run_loop_Suc)
    show ?thesis
    proof (cases "after_entry df n (run_loop df n)")
      case None
      then have "\<not> exit_evaluated df n" by (simp add: exit_evaluated_def)
      then show ?thesis
        using Suc.IH None by (auto simp: step loop_body_after_entry intro: tracked_skip)
    next
      case (Some f)
      show ?thesis
      proof (cases f)
        case (Continue s)
        then have ne: "\<not> exit_evaluated df n"
          using Some by (simp add: exit_evaluated_def)
        from after_entry_Some(2) [OF Some] Continue
        have "positions s = positions (run_loop df n)" by auto
        then show ?thesis
          using Suc.IH Some Continue ne
          by (auto simp: step loop_body_after_entry intro: tracked_skip)
      next
        case (Fallthrough s)
        with Some have ae: "after_entry df n (run_loop df n) = Some (Fallthrough s)" by simp
        have "positions (run_loop df (Suc n))
              = filter (\<lambda>p. exit_check (df ! n) p = None) (map bump (positions s))"
          by (simp add: step loop_body_after_entry ae exit_phase_remaining)
        then show ?thesis
          using bumped_tracked [OF Suc.IH n ae] by auto
      qed
    qed
  qed
qed

lemma closed_at_tracked:
  assumes "1 \<le> j" and "p \<in> set (closed_at df j)"
  shows "tracked df (Suc j) p \<and> exit_evaluated df j"
proof -
  from assms(2) have "\<exists>s. after_entry df j (run_loop df j) = Some (Fallthrough s)
      \<and> p \<in> set (fst (snd (exit_loop (df ! j) j (positions s) s)))"
    by (cases "after_entry df j (run_loop df j)")
      (auto simp: closed_at_def split: flow.splits)
  then obtain s where ae: "after_entry df j (run_loop df j) = Some (Fallthrough s)"
    and p: "p \<in> set (fst (snd (exit_loop (df ! j) j (positions s) s)))"
    by blast
  from p obtain q where "q \<in> set (positions s)" "p = bump q"
    by (auto simp: exit_loop_to_close)
  then show ?thesis
    using bumped_tracked [OF run_loop_tracked assms(1) ae] ae
    by (auto simp: exit_evaluated_iff)
qed

lemma closes_Suc:
  "1 \<le> n \<Longrightarrow> closes df (Suc n) = closes df n @ map (Pair n) (closed_at df n)"
  by (simp add: closes_def)

lemma closes_members:
  assumes "(j, p) \<in> set (closes df n)"
  shows "1 \<le> j \<and> j < n \<and> p \<in> set (closed_at df j)"
  using assms by (auto simp: closes_def)

lemma exit_loop_field:
  assumes "\<And>p ep et s. map f (trade_history (close_position r i p ep et s))
             = map f (trade_history s) @ [g p]"
  shows "map f (trade_history (snd (snd (exit_loop r i ps st))))
           = map f (trade_history st) @ map g (fst (snd (exit_loop r i ps st)))"
  by (induction ps arbitrary: st)
    (simp_all add: Let_def split_beta assms split: option.splits)

lemma run_loop_field:
  assumes "\<And>r i p ep et s. map f (trade_history (close_position r i p ep et s))
             = map f (trade_history s) @ [g r i p]"
  shows "map f (trade_history (run_loop df n))
           = map (\<lambda>(j, p). g (df ! j) j p) (closes df n)"
proof (induction n)
  case 0
  show ?case by (simp add: run_loop_0 init_state_def closes_def)
next
  case (Suc n)
  show ?case
  proof (cases "n = 0")
    case True
    then show ?thesis by (simp add: run_loop_Suc init_state_def closes_def)
  next
    case False
    then have n: "1 \<le> n" by simp
    have step: "run_loop df (Suc n) = loop_body df n (run_loop df n)"
      using False by (simp add: run_loop_Suc)
    have new: "map f (trade_history (loop_body df n (run_loop df n)))
        = map f (trade_history (run_loop df n)) @ map (g (df ! n) n) (closed_at df n)"
    proof (cases "after_entry df n (run_loop df n)")
      case None
      then show ?thesis by (simp add: loop_body_after_entry closed_at_def)
    next
      case (Some fl)
      show ?thesis
      proof (cases fl)
        case (Continue s)
        with after_entry_Some(1) [OF Some] Some show ?thesis
          by (simp add: loop_body_after_entry closed_at_def)
      next
        case (Fallthrough s)
        with after_entry_Some(1) [OF Some] have h: "trade_history s = trade_history (run_loop df n)"
          by simp
        show ?thesis
          using exit_loop_field [of f "df ! n" n "g (df ! n) n" "positions s" s, OF assms]
          by (simp add: loop_body_after_entry Some Fallthrough closed_at_def
              exit_phase_history h)
      qed
    qed
    show ?thesis
      unfolding step new Suc.IH closes_Suc [OF n] by (simp add: comp_def)
  qed
qed

lemma count_evaluated:
  assumes "e \<le> j" and "exit_evaluated df e"
  shows "int (length (filter (exit_evaluated df) [e..<Suc j]))
       = int j - int e + 1
         - int (length (filter (\<lambda>k. \<not> exit_evaluated df k) [Suc e..<Suc j]))"
proof -
  have "[e..<Suc j] = e # [Suc e..<Suc j]"
    using assms(1) by (simp add: upt_conv_Cons)
  then have "length (filter (exit_evaluated df) [e..<Suc j])
      = Suc (length (filter (exit_evaluated df) [Suc e..<Suc j]))"
    using assms(2) by (simp del: upt_Suc)
  moreover have "length (filter (exit_evaluated df) [Suc e..<Suc j])
      + length (filter (\<lambda>k. \<not> exit_evaluated df k) [Suc e..<Suc j]) = j - e"
    using sum_length_filter_compl [of "exit_evaluated df" "[Suc e..<Suc j]"]
    by (simp del: upt_Suc)
  ultimately show ?thesis using assms(1) by (simp del: upt_Suc)
qed

section \<open>The example runs, evaluated\<close>

lemma ex_full_run4:
  "map entry_index (positions (run_loop ex_full 4)) = [1, 2, 3]"
  by (simp add: model_defs params ex_full_def ex_signal_def upt_rec)

lemmas ex_defs =
  ex_rejected_def ex_stopped_def ex_won_def ex_row0_def ex_row1_def ex_row2_def ex_row3_def
  ex_row4_def

lemma ex_rejected_run2: "run_loop ex_rejected 2 = ex_open"
  by (simp add: model_defs params ex_defs ex_open_def upt_rec)

lemma ex_stopped_run2: "run_loop ex_stopped 2 = ex_open"
  by (simp add: model_defs params ex_defs ex_open_def upt_rec)

lemma ex_won_run2: "run_loop ex_won 2 = ex_open"
  by (simp add: model_defs params ex_defs ex_open_def upt_rec)

lemma run_loop_3: "run_loop df 3 = loop_body df 2 (run_loop df 2)"
  using run_loop_Suc [of df 2] by (simp add: numeral_3_eq_3 numeral_2_eq_2)

lemma ex_stopped_run3:
  "run_loop ex_stopped 3 =
     \<lparr>balance = 12752859761609 / 1280000000000, positions = [],
      trade_history =
        [\<lparr>th_timestamp = 600, th_side = ''sell'', th_entry_price = 11996991 / 800,
          th_exit_price = 2391808797 / 160000, th_size = 1 / 2000,
          th_profit_loss = - (7589403 / 160000000), th_win_loss = ''Loss'',
          th_usdt_balance = 12752859761609 / 1280000000000, th_sol_balance = 0,
          th_exit_type = ''Stop Loss'', th_sl_distance = 16991 / 800,
          th_tp_distance = 403009 / 800, th_macd_at_entry = - 20,
          th_signal_at_entry = - 19, th_hist_at_entry = - 1, th_atr_at_entry = 100,
          th_candles_held = 1\<rparr>],
      usdt_balance = 12752859761609 / 1280000000000, sol_balance = 0, trades = 1, wins = 0,
      rsi_below_threshold_count = 1, partial_condition_count = 1,
      partial_file = [(300, 10, - 20, - 19, - 1)]\<rparr>"
  unfolding run_loop_3 ex_stopped_run2
  by (simp add: model_defs params ex_defs ex_open_def)

lemma ex_won_run3:
  "run_loop ex_won 3 =
     \<lparr>balance = 654401022721 / 64000000000, positions = [],
      trade_history =
        [\<lparr>th_timestamp = 600, th_side = ''sell'', th_entry_price = 11996991 / 800,
          th_exit_price = 123783093 / 8000, th_size = 1 / 2000,
          th_profit_loss = 3813183 / 8000000, th_win_loss = ''Win'',
          th_usdt_balance = 654401022721 / 64000000000, th_sol_balance = 0,
          th_exit_type = ''Take Profit'', th_sl_distance = 16991 / 800,
          th_tp_distance = 403009 / 800, th_macd_at_entry = - 20,
          th_signal_at_entry = - 19, th_hist_at_entry = - 1, th_atr_at_entry = 100,
          th_candles_held = 1\<rparr>],
      usdt_balance = 654401022721 / 64000000000, sol_balance = 0, trades = 1, wins = 1,
      rsi_below_threshold_count = 1, partial_condition_count = 1,
      partial_file = [(300, 10, - 20, - 19, - 1)]\<rparr>"
  unfolding run_loop_3 ex_won_run2
  by (simp add: model_defs params ex_defs ex_open_def)

lemma ex_rejected_run3:
  "run_loop ex_rejected 3 =
     ex_open\<lparr>rsi_below_threshold_count := 2, partial_condition_count := 2,
             partial_file := [(300, 10, - 20, - 19, - 1), (600, 8, - 25, - 21, - 4)]\<rparr>"
  unfolding run_loop_3 ex_rejected_run2
  by (simp add: model_defs params ex_defs ex_open_def)

lemma ex_rejected_entry:
  "entry_phase ex_row2 2 8 (- 25) (- 21) (- 4) 100 9 ex_open =
     Continue (ex_open\<lparr>partial_condition_count := 2,
                partial_file := [(300, 10, - 20, - 19, - 1), (600, 8, - 25, - 21, - 4)]\<rparr>)"
  by (simp add: model_defs params ex_defs ex_open_def)

lemma run_loop_1: "run_loop df 1 = init_state"
  by (simp add: run_loop_def)

lemma run_loop_4: "run_loop df 4 = loop_body df 3 (run_loop df 3)"
  using run_loop_Suc [of df 3] by (simp add: eval_nat_numeral)

lemma ex_paused_run2: "run_loop ex_paused 2 = ex_open"
  by (simp add: model_defs params ex_defs ex_paused_def ex_open_def upt_rec)

lemma ex_paused_run3: "run_loop ex_paused 3 = ex_open"
  unfolding run_loop_3 ex_paused_run2
  by (simp add: loop_body_def ex_paused_def ex_defs)

lemmas observer_defs = closes_def closed_at_def exit_evaluated_def after_entry_def

lemma ex_stopped_closes: "closes ex_stopped 3 = [(2, ex_closed)]"
  by (simp add: observer_defs upt_rec run_loop_1 ex_stopped_run2)
    (simp add: model_defs params ex_defs ex_open_def ex_closed_def)

lemma ex_paused_closes: "closes ex_paused 4 = [(3, ex_closed)]"
  by (simp add: observer_defs upt_rec run_loop_1 ex_paused_run2 ex_paused_run3)
    (simp add: model_defs params ex_defs ex_paused_def ex_open_def ex_closed_def)

lemma ex_stopped_evaluated: "exit_evaluated ex_stopped 1 \<and> exit_evaluated ex_stopped 2"
  by (simp add: observer_defs run_loop_1 ex_stopped_run2)
    (simp add: model_defs params ex_defs ex_open_def)

lemma ex_paused_evaluated:
  "exit_evaluated ex_paused 1 \<and> \<not> exit_evaluated ex_paused 2 \<and> exit_evaluated ex_paused 3"
  by (simp add: observer_defs run_loop_1 ex_paused_run2 ex_paused_run3)
    (simp add: model_defs params ex_defs ex_paused_def ex_open_def)

section \<open>The claims\<close>

text \<open>
  C2. After any number of iterations of the simulation loop, \<^verbatim>\<open>sol_balance\<close> is the sum
  of \<open>size\<close> over the open positions, hence 0 when none is open; and the exit evaluation
  re-establishes this from any state, since it recomputes \<^verbatim>\<open>sol_balance\<close> from the
  positions that remain.
\<close>

theorem sol_balance_is_sum_of_open_sizes:
  "sol_balance (run_loop df n) = sum_list (map size_pos (positions (run_loop df n)))
   \<and> (positions (run_loop df n) = [] \<longrightarrow> sol_balance (run_loop df n) = 0)
   \<and> sol_balance (exit_phase r i st) = sum_list (map size_pos (positions (exit_phase r i st)))"
  by (simp add: run_loop_sol exit_phase_sol_balance)

theorem sol_balance_is_sum_of_open_sizes_witness:
  "positions (run_loop ex_stopped 3) = [] \<and> sol_balance (run_loop ex_stopped 3) = 0
   \<and> positions (run_loop ex_stopped 2) \<noteq> []
   \<and> sol_balance (run_loop ex_stopped 2)
       = sum_list (map size_pos (positions (run_loop ex_stopped 2)))"
  using sol_balance_is_sum_of_open_sizes [of ex_stopped 3]
    sol_balance_is_sum_of_open_sizes [of ex_stopped 2]
  by (simp add: ex_stopped_run3 ex_stopped_run2 ex_open_def)

text \<open>
  C3. After any number of iterations the number of open positions is at most
  \<^verbatim>\<open>max_positions\<close>, also between the entry and the exit evaluation of a step; the entry
  evaluation adds at most one position, and it does nothing at all when the number of
  open positions is not below \<^verbatim>\<open>max_positions\<close>; a whole iteration adds at most one
  position.
\<close>

theorem open_positions_never_exceed_max:
  "length (positions (run_loop df n)) \<le> max_positions
   \<and> (length (positions st) \<le> max_positions \<longrightarrow>
        length (positions (flow_state (entry_phase r i rsi macd signal hist atr volume_sma st)))
          \<le> max_positions)
   \<and> length (positions (flow_state (entry_phase r i rsi macd signal hist atr volume_sma st)))
       \<le> length (positions st) + 1
   \<and> (\<not> length (positions st) < max_positions \<longrightarrow>
        entry_phase r i rsi macd signal hist atr volume_sma st = Fallthrough st)
   \<and> length (positions (loop_body df i st)) \<le> length (positions st) + 1"
  using entry_phase_length [of r i rsi macd signal hist atr volume_sma st]
    loop_body_length [of df i st]
  by (simp add: run_loop_bounded entry_phase_bounded entry_phase_full)

theorem open_positions_never_exceed_max_witness:
  "length (positions (run_loop ex_full 4)) = 3
   \<and> \<not> length (positions (run_loop ex_full 4)) < max_positions
   \<and> entry_phase (ex_full ! 4) 4 10 (- 2) (- 1) (- 1) 4 8 (run_loop ex_full 4)
       = Fallthrough (run_loop ex_full 4)
   \<and> length (positions (run_loop ex_full 5)) \<le> max_positions"
proof -
  have len: "length (positions (run_loop ex_full 4)) = 3"
    using arg_cong [OF ex_full_run4, of length] by simp
  show ?thesis
    using open_positions_never_exceed_max
      [of ex_full 5 "run_loop ex_full 4" "ex_full ! 4" 4 10 "- 2" "- 1" "- 1" 4 8] len
    by (simp add: max_positions_def)
qed

text \<open>
  C4. The exit evaluation appends to the trade log, for each open position in order, at
  most one trade, and the exit type of that trade is the first of: Stop Loss when the
  low of the candle is at or below the stop price; Take Profit when the high is at or
  above the take price; Time Exit when the incremented counter has reached
  \<^verbatim>\<open>max_hold_candles\<close>. So a candle whose range holds both the stop and the take price
  records Stop Loss. Every trade in the log of a run has one of these three exit types.
\<close>

theorem exit_type_by_priority:
  "map th_exit_type (trade_history (snd (snd (exit_loop r i ps st))))
     = map th_exit_type (trade_history st)
       @ List.map_filter
           (\<lambda>pos. if df_low r \<le> stop_loss pos then Some ''Stop Loss''
                   else if take_profit pos \<le> df_high r then Some ''Take Profit''
                   else if max_hold_candles \<le> position_candles pos + 1 then Some ''Time Exit''
                   else None) ps
   \<and> (\<forall>t \<in> set (trade_history (run_loop df n)).
         th_exit_type t \<in> {''Stop Loss'', ''Take Profit'', ''Time Exit''})"
  using run_loop_types [of df n]
  unfolding exit_loop_exit_types priority_fun by auto


theorem exit_type_by_priority_witness:
  "df_low ex_row3 \<le> stop_loss (hd (positions ex_open))
   \<and> take_profit (hd (positions ex_open)) \<le> df_high ex_row3
   \<and> map th_exit_type (trade_history (snd (snd (exit_loop ex_row3 2 (positions ex_open) ex_open))))
       = [''Stop Loss'']
   \<and> hd (trade_history (run_loop ex_stopped 3)) \<in> set (trade_history (run_loop ex_stopped 3))
   \<and> th_exit_type (hd (trade_history (run_loop ex_stopped 3)))
       \<in> {''Stop Loss'', ''Take Profit'', ''Time Exit''}"
  using exit_type_by_priority [of ex_row3 2 "positions ex_open" ex_open ex_stopped 3]
  by (simp add: ex_stopped_run3 ex_open_def ex_row3_def map_filter_simps)

text \<open>
  C5, as the claim states it, fails: in the run \<open>ex_stopped\<close> the position opened at
  index 1 is closed at index 2 with \<^verbatim>\<open>candles_held\<close> 1 in its trade record, while its
  counter \<^verbatim>\<open>position_candles\<close> is 2 in \<^verbatim>\<open>positions_to_close\<close>.
\<close>

theorem candles_held_differs_from_counter:
  "map th_candles_held (trade_history (run_loop ex_stopped 3)) = [1]
   \<and> run_loop ex_stopped 3 = exit_phase (ex_stopped ! 2) 2 (run_loop ex_stopped 2)
   \<and> map position_candles
         (fst (snd (exit_loop (ex_stopped ! 2) 2 (positions (run_loop ex_stopped 2))
                      (run_loop ex_stopped 2)))) = [2]
   \<and> map th_candles_held (trade_history (run_loop ex_stopped 3))
       \<noteq> map int (map position_candles
           (fst (snd (exit_loop (ex_stopped ! 2) 2 (positions (run_loop ex_stopped 2))
                        (run_loop ex_stopped 2)))))"
  unfolding ex_stopped_run3 ex_stopped_run2
  by (simp add: model_defs params ex_defs ex_open_def)

text \<open>
  C5, amended. In the trade log of a run, the \<^verbatim>\<open>candles_held\<close> of each trade is the index
  of the candle on which its position is closed minus the \<^verbatim>\<open>entry_index\<close> of that
  position, and \<^verbatim>\<open>entry_index\<close> is the index of the candle the position was opened on.
  The counter \<^verbatim>\<open>position_candles\<close> of the position is, when it is closed, the number of
  iterations from its opening candle to its closing candle, both included, that reach
  the exit evaluation: \<^verbatim>\<open>candles_held\<close> plus one, minus the number of iterations after the
  opening candle that skip the exit evaluation. And two candle sequences that differ in
  their timestamps only, as a sequence and its copy with a gap do, give the same
  \<^verbatim>\<open>candles_held\<close> in every trade of their runs.
\<close>

theorem candles_held_is_index_distance:
  "map th_candles_held (trade_history (run_loop df n))
     = map (\<lambda>(j, p). int j - int (entry_index p)) (closes df n)
   \<and> map th_timestamp (trade_history (run_loop df n))
     = map (\<lambda>(j, p). df_timestamp (df ! j)) (closes df n)
   \<and> map th_entry_price (trade_history (run_loop df n))
     = map (\<lambda>(j, p). entry_price p) (closes df n)
   \<and> (\<forall>(j, p) \<in> set (closes df n).
         1 \<le> entry_index p \<and> entry_index p \<le> j \<and> j < n
         \<and> opened_on (df ! entry_index p) p
         \<and> exit_evaluated df (entry_index p) \<and> exit_evaluated df j
         \<and> position_candles p = length (filter (exit_evaluated df) [entry_index p..<Suc j])
         \<and> int (position_candles p)
             = int j - int (entry_index p) + 1
               - int (length (filter (\<lambda>k. \<not> exit_evaluated df k)
                                [Suc (entry_index p)..<Suc j])))
   \<and> (map untimed_row df1 = map untimed_row df2 \<and> n \<le> length df1 \<longrightarrow>
        map th_candles_held (trade_history (run_loop df1 n))
          = map th_candles_held (trade_history (run_loop df2 n)))"
proof -
  have a: "map th_candles_held (trade_history (run_loop df n))
     = map (\<lambda>(j, p). int j - int (entry_index p)) (closes df n)"
    by (rule run_loop_field) (simp add: close_position_def Let_def)
  have b: "map th_timestamp (trade_history (run_loop df n))
     = map (\<lambda>(j, p). df_timestamp (df ! j)) (closes df n)"
    by (rule run_loop_field) (simp add: close_position_def Let_def)
  have c: "map th_entry_price (trade_history (run_loop df n))
     = map (\<lambda>(j, p). entry_price p) (closes df n)"
    by (rule run_loop_field) (simp add: close_position_def Let_def)
  have d: "1 \<le> entry_index p \<and> entry_index p \<le> j \<and> j < n
         \<and> opened_on (df ! entry_index p) p
         \<and> exit_evaluated df (entry_index p) \<and> exit_evaluated df j
         \<and> position_candles p = length (filter (exit_evaluated df) [entry_index p..<Suc j])
         \<and> int (position_candles p)
             = int j - int (entry_index p) + 1
               - int (length (filter (\<lambda>k. \<not> exit_evaluated df k)
                                [Suc (entry_index p)..<Suc j]))"
    if "(j, p) \<in> set (closes df n)" for j p
  proof -
    from closes_members [OF that] have j: "1 \<le> j" "j < n" and p: "p \<in> set (closed_at df j)"
      by simp_all
    from closed_at_tracked [OF j(1) p]
    have t: "1 \<le> entry_index p" "entry_index p < Suc j" "opened_on (df ! entry_index p) p"
      "exit_evaluated df (entry_index p)"
      "position_candles p = length (filter (exit_evaluated df) [entry_index p..<Suc j])"
      and ev: "exit_evaluated df j"
      by (simp_all add: tracked_def)
    from t(2) have le: "entry_index p \<le> j" by simp
    show ?thesis
      using t ev j le count_evaluated [OF le t(4)] by (simp del: upt_Suc)
  qed
  have e: "map untimed_row df1 = map untimed_row df2 \<and> n \<le> length df1 \<longrightarrow>
        map th_candles_held (trade_history (run_loop df1 n))
          = map th_candles_held (trade_history (run_loop df2 n))"
    using retimed_candles_held [of df1 df2 n] by blast
  from a b c d e show ?thesis by blast
qed

theorem candles_held_is_index_distance_witness:
  "closes ex_stopped 3 = [(2, ex_closed)]
   \<and> map th_candles_held (trade_history (run_loop ex_stopped 3)) = [1]
   \<and> position_candles ex_closed = 2
   \<and> filter (\<lambda>k. \<not> exit_evaluated ex_stopped k) [Suc (entry_index ex_closed)..<Suc 2] = []
   \<and> opened_on (ex_stopped ! 1) ex_closed
   \<and> closes ex_paused 4 = [(3, ex_closed)]
   \<and> map th_candles_held (trade_history (run_loop ex_paused 4)) = [2]
   \<and> filter (\<lambda>k. \<not> exit_evaluated ex_paused k) [Suc (entry_index ex_closed)..<Suc 3] = [2]
   \<and> map untimed_row ex_stopped = map untimed_row ex_gapped
   \<and> 3 \<le> length ex_stopped
   \<and> map df_timestamp ex_stopped \<noteq> map df_timestamp ex_gapped
   \<and> map th_candles_held (trade_history (run_loop ex_gapped 3)) = [1]"
proof -
  note stopped = candles_held_is_index_distance [of ex_stopped 3 ex_stopped ex_gapped]
  note paused = candles_held_is_index_distance [of ex_paused 4 ex_paused ex_paused]
  have h: "map untimed_row ex_stopped = map untimed_row ex_gapped \<and> 3 \<le> length ex_stopped"
    by (simp add: ex_defs ex_gapped_def untimed_row_def)
  have d: "map df_timestamp ex_stopped \<noteq> map df_timestamp ex_gapped"
    by (simp add: ex_defs ex_gapped_def)
  have c1: "map th_candles_held (trade_history (run_loop ex_stopped 3)) = [1]"
    using stopped [THEN conjunct1] by (simp add: ex_stopped_closes ex_closed_def)
  have c2: "map th_candles_held (trade_history (run_loop ex_paused 4)) = [2]"
    using paused [THEN conjunct1] by (simp add: ex_paused_closes ex_closed_def)
  have "map th_candles_held (trade_history (run_loop ex_stopped 3))
      = map th_candles_held (trade_history (run_loop ex_gapped 3))"
    using stopped h by blast
  with c1 have g: "map th_candles_held (trade_history (run_loop ex_gapped 3)) = [1]"
    by simp
  have pc: "position_candles ex_closed = 2"
    by (simp add: ex_closed_def)
  have f1: "filter (\<lambda>k. \<not> exit_evaluated ex_stopped k) [Suc (entry_index ex_closed)..<Suc 2] = []"
    using ex_stopped_evaluated by (simp add: ex_closed_def upt_rec numeral_2_eq_2)
  have f2: "filter (\<lambda>k. \<not> exit_evaluated ex_paused k) [Suc (entry_index ex_closed)..<Suc 3] = [2]"
    using ex_paused_evaluated
    by (simp add: ex_closed_def upt_rec numeral_2_eq_2 numeral_3_eq_3)
  have oo: "opened_on (ex_stopped ! 1) ex_closed"
    by (simp add: opened_on_def rsi_lt_def ex_defs ex_closed_def params)
  from ex_stopped_closes c1 pc f1 oo ex_paused_closes c2 f2 h d g show ?thesis
    by blast
qed

text \<open>
  C7. With a cash balance of 10, a close of 100 and an ATR of 1: the risk amount is 0.5,
  the raw size (0.5 / 0.25) / 100 = 0.02, the rounded size 0.02, the required capital 2;
  the entry is not rejected, and the position it opens has stop price 99.75 and take
  price 105.
\<close>

theorem sizing_example:
  "risk_amount 10 = 1 / 2
   \<and> raw_size 10 100 = (1 / 2 / (25 / 100)) / 100
   \<and> raw_size 10 100 = 2 / 100
   \<and> trade_size 10 100 = 2 / 100
   \<and> position_size_usdt 10 100 = 2
   \<and> \<not> entry_rejected 10 100
   \<and> enter_position (r\<lparr>df_close := 100\<rparr>) i macd signal hist 1 (st\<lparr>balance := 10\<rparr>)
       = Fallthrough
           (st\<lparr>balance := 10 - 2 * (1 + fee_percent / 100),
               positions := positions st @
                 [\<lparr>entry_price = 100 * slippage_factor * (1 + fee_percent / 100),
                   size_pos = 2 / 100, stop_loss = 9975 / 100, take_profit = 105,
                   entry_index = i, entry_time = df_timestamp r, macd_at_entry = macd,
                   signal_at_entry = signal, hist_at_entry = hist, atr_at_entry = 1,
                   position_candles = 0\<rparr>],
               usdt_balance := 10 - 2 * (1 + fee_percent / 100),
               sol_balance := sol_balance st + 2 / 100\<rparr>)"
  by (simp add: model_defs params)

text \<open>
  C8. The profit factor is never an error: it is the sum of the strictly positive
  profits divided by the absolute value of the sum of the strictly negative ones when
  the log has a losing trade, and the infinite value otherwise.
\<close>

theorem profit_factor_value:
  "profit_factor th =
     Inr (if \<exists>t \<in> set th. th_profit_loss t < 0
          then Finite (sum_list (map th_profit_loss (filter (\<lambda>t. 0 < th_profit_loss t) th))
                       / \<bar>sum_list (map th_profit_loss (filter (\<lambda>t. th_profit_loss t < 0) th))\<bar>)
          else Infinite)"
  using gross_loss_zero_iff [of th]
  by (auto simp: profit_factor_def py_div_def gross_profit_def gross_loss_def)

theorem profit_factor_value_witness:
  "(\<exists>t \<in> set (trade_history (run_loop ex_stopped 3)). th_profit_loss t < 0)
   \<and> profit_factor (trade_history (run_loop ex_stopped 3)) = Inr (Finite 0)
   \<and> trade_history (run_loop ex_won 3) \<noteq> []
   \<and> \<not> (\<exists>t \<in> set (trade_history (run_loop ex_won 3)). th_profit_loss t < 0)
   \<and> profit_factor (trade_history (run_loop ex_won 3)) = Inr Infinite"
  using profit_factor_value [of "trade_history (run_loop ex_stopped 3)"]
    profit_factor_value [of "trade_history (run_loop ex_won 3)"]
  by (simp add: ex_stopped_run3 ex_won_run3)

text \<open>
  C10. For a candle with a positive close that gives an entry signal while fewer than
  \<^verbatim>\<open>max_positions\<close> positions are open: the second condition of the rejection test (size
  times close below \<^verbatim>\<open>min_order_size\<close> times close) does not hold; the entry is rejected,
  that is the loop continues with the next candle, exactly when the required capital
  exceeds the cash balance; and a rejection leaves the positions and the three balances
  as they were.
\<close>

theorem rejected_iff_capital_exceeds_balance:
  assumes "0 < df_close r" and "length (positions st) < max_positions"
    and "rsi < rsi_oversold" and "hist > min_hist_threshold" and "df_volume r > volume_sma"
  shows "\<not> trade_size (balance st) (df_close r) * df_close r < min_order_size * df_close r
    \<and> ((\<exists>st2. entry_phase r i rsi macd signal hist atr volume_sma st = Continue st2)
         \<longleftrightarrow> balance st < position_size_usdt (balance st) (df_close r))
    \<and> (\<forall>st2. entry_phase r i rsi macd signal hist atr volume_sma st = Continue st2 \<longrightarrow>
          positions st2 = positions st \<and> balance st2 = balance st
          \<and> usdt_balance st2 = usdt_balance st \<and> sol_balance st2 = sol_balance st)"
proof -
  have a: "\<not> trade_size (balance st) (df_close r) * df_close r < min_order_size * df_close r"
    using trade_size_ge_min [of "balance st" "df_close r"] assms(1)
    by (simp add: mult_right_mono not_less)
  have b: "(\<exists>st2. entry_phase r i rsi macd signal hist atr volume_sma st = Continue st2)
         \<longleftrightarrow> balance st < position_size_usdt (balance st) (df_close r)"
    using assms entry_rejected_iff [OF assms(1), of "balance st"]
    by (simp add: entry_phase_def enter_position_cases Let_def note_partial_keeps)
  have c: "\<forall>st2. entry_phase r i rsi macd signal hist atr volume_sma st = Continue st2 \<longrightarrow>
          positions st2 = positions st \<and> balance st2 = balance st
          \<and> usdt_balance st2 = usdt_balance st \<and> sol_balance st2 = sol_balance st"
    using entry_phase_Continue by blast
  from a b c show ?thesis by blast
qed

theorem rejected_iff_capital_exceeds_balance_witness:
  "0 < df_close ex_row2 \<and> length (positions ex_open) < max_positions
   \<and> (8::real) < rsi_oversold \<and> (- 4::real) > min_hist_threshold \<and> df_volume ex_row2 > 9
   \<and> balance ex_open < position_size_usdt (balance ex_open) (df_close ex_row2)
   \<and> (\<exists>st2. entry_phase ex_row2 2 8 (- 25) (- 21) (- 4) 100 9 ex_open = Continue st2)
   \<and> positions (flow_state (entry_phase ex_row2 2 8 (- 25) (- 21) (- 4) 100 9 ex_open))
       = positions ex_open
   \<and> 0 < df_close ex_row1 \<and> length (positions init_state) < max_positions
   \<and> (10::real) < rsi_oversold \<and> (- 1::real) > min_hist_threshold \<and> df_volume ex_row1 > 8
   \<and> \<not> balance init_state < position_size_usdt (balance init_state) (df_close ex_row1)
   \<and> \<not> (\<exists>st2. entry_phase ex_row1 1 10 (- 20) (- 19) (- 1) 100 8 init_state = Continue st2)"
proof -
  have h1: "0 < df_close ex_row2" "length (positions ex_open) < max_positions"
    "(8::real) < rsi_oversold" "(- 4::real) > min_hist_threshold" "df_volume ex_row2 > 9"
    by (simp_all add: ex_defs ex_open_def params)
  have h2: "0 < df_close ex_row1" "length (positions init_state) < max_positions"
    "(10::real) < rsi_oversold" "(- 1::real) > min_hist_threshold" "df_volume ex_row1 > 8"
    by (simp_all add: ex_defs init_state_def params)
  have b1: "balance ex_open < position_size_usdt (balance ex_open) (df_close ex_row2)"
    by (simp add: model_defs params ex_defs ex_open_def)
  have b2: "\<not> balance init_state < position_size_usdt (balance init_state) (df_close ex_row1)"
    by (simp add: model_defs params ex_defs)
  show ?thesis
    using rejected_iff_capital_exceeds_balance [OF h1, of 2 "- 25" "- 21" 100]
      rejected_iff_capital_exceeds_balance [OF h2, of 1 "- 20" "- 19" 100]
      h1 h2 b1 b2
    by (simp add: ex_rejected_entry)
qed

text \<open>
  C1 fails on the code. In the run \<open>ex_rejected\<close> the third candle is eligible, a position
  with stop price 14975 and counter 1 is open, and the low of the candle is 14900. The
  candle gives an entry signal that is rejected for insufficient balance, and the
  \<^verbatim>\<open>continue\<close> of line 229 skips the exit evaluation: the position stays open with its
  counter at 1 and no trade is recorded, where the exit evaluation of lines 272-351 would
  have closed it by Stop Loss.
\<close>

theorem exit_evaluation_skipped_on_rejected_entry:
  "eligible (ex_rejected ! 2)
   \<and> run_loop ex_rejected 2 = ex_open
   \<and> map stop_loss (positions ex_open) = [14975]
   \<and> map position_candles (positions ex_open) = [1]
   \<and> df_low (ex_rejected ! 2) = 14900
   \<and> positions (run_loop ex_rejected 3) = positions ex_open
   \<and> trade_history (run_loop ex_rejected 3) = []
   \<and> positions (exit_phase (ex_rejected ! 2) 2 ex_open) = []
   \<and> map th_exit_type (trade_history (exit_phase (ex_rejected ! 2) 2 ex_open)) = [''Stop Loss'']"
  unfolding ex_rejected_run3 ex_rejected_run2
  by (simp add: model_defs params ex_defs ex_open_def eligible_def)

text \<open>
  C6 fails on the code. For the sixteen candles \<open>ex_candles\<close> the RSI is undefined on the
  first thirteen rows, 0 on the next two and about 89.8 on the last. The filter keeps
  the rows with \<^verbatim>\<open>df['rsi'] >= 1.0\<close>, a comparison that is false on an undefined RSI
  too: the result is the last row alone, re-indexed to 0, where dropping only the rows
  with a defined RSI below 1.0 would keep fourteen rows.
\<close>

theorem filter_drops_warm_up_rows:
  "map df_rsi (indicator_rows ex_candles)
     = [None, None, None, None, None, None, None, None, None, None, None, None, None,
        Some 0, Some 0, Some (19000000000000 / 211666666669)]
   \<and> map (\<lambda>(k, r). (k, df_timestamp r, df_rsi r)) (calculate_indicators ex_candles)
     = [(0, 4500, Some (19000000000000 / 211666666669))]
   \<and> map (\<lambda>(k, r). (k, df_timestamp r, df_rsi r))
       (reset_index
          (drop_defined_below_one (zip [0..<length ex_candles] (indicator_rows ex_candles))))
     = [(0, 0, None), (1, 300, None), (2, 600, None), (3, 900, None), (4, 1200, None),
        (5, 1500, None), (6, 1800, None), (7, 2100, None), (8, 2400, None), (9, 2700, None),
        (10, 3000, None), (11, 3300, None), (12, 3600, None),
        (13, 4500, Some (19000000000000 / 211666666669))]"
  by code_simp

end
